theory Spec2Isabelle
  imports Main "HOL-Library.Word" "HOL-Library.AList"
begin

unbundle bit_operations_syntax

section \<open>The bridge server of AQWWebLogger\<close>

text \<open>
  A shallow embedding of the TCP side of the bridge server: the handshake utilities, the
  state diffing, the JSON and legacy message handling, the log rings, the handshake and
  heartbeat supervision and the username checker. The module's global maps are the fields
  of one state record; every callback of the source (a socket event handler, a timer
  callback) is a function from the state to the next state, or to the exception that the
  callback lets out. What a callback sends to the
  browsers is appended to the field \<open>published\<close>, in order; what it writes to a TCP
  socket is appended to that socket's \<open>written\<close>.

  Strings are lists of code units below 256. \<open>Date.now()\<close>, \<open>new Date().toISOString()\<close>
  and the formatted local time are read from an environment record handed to each
  callback. \<open>console.log\<close> and the append to the file \<open>master.log\<close> are left out.
\<close>

subsection \<open>String helpers of the JavaScript runtime\<close>

type_synonym clientId = string

definition startsWith :: "string \<Rightarrow> string \<Rightarrow> bool" where
  "startsWith s p = (take (length p) s = p)"

text \<open>\<open>String.prototype.trim\<close>: the white space and line terminators below 256.\<close>

definition isWhiteSpace :: "char \<Rightarrow> bool" where
  "isWhiteSpace c = (of_char c \<in> {9, 10, 11, 12, 13, 32, 160 :: nat})"

definition js_trim :: "string \<Rightarrow> string" where
  "js_trim s = rev (dropWhile isWhiteSpace (rev (dropWhile isWhiteSpace s)))"

definition lowerChar :: "char \<Rightarrow> char" where
  "lowerChar c =
     (let n = of_char c :: nat
      in if (65 \<le> n \<and> n \<le> 90) \<or> (192 \<le> n \<and> n \<le> 222 \<and> n \<noteq> 215)
         then char_of (n + 32) else c)"

definition toLowerCase :: "string \<Rightarrow> string" where
  "toLowerCase s = map lowerChar s"

text \<open>\<open>message.split(':')[1]\<close>, for a message that contains a colon (every call site has
  checked a prefix that ends in one).\<close>

definition splitColon1 :: "string \<Rightarrow> string" where
  "splitColon1 s =
     takeWhile (\<lambda>c. c \<noteq> CHR '':'') (drop 1 (dropWhile (\<lambda>c. c \<noteq> CHR '':'') s))"

fun joinWith :: "string \<Rightarrow> string list \<Rightarrow> string" where
  "joinWith sep [] = []"
| "joinWith sep [x] = x"
| "joinWith sep (x # y # r) = x @ sep @ joinWith sep (y # r)"

text \<open>\<open>String.prototype.replace\<close> with a string pattern and a string replacement: the
  first occurrence of the pattern is replaced, and the replacement text is expanded as
  ECMAScript's GetSubstitution does when there are no captures: \<open>$$\<close> is a dollar,
  \<open>$&\<close> the matched text, \<open>$`\<close> the text before the match, \<open>$'\<close> the text
  after it; every other character stands for itself.\<close>

fun indexOf :: "string \<Rightarrow> string \<Rightarrow> nat option" where
  "indexOf [] p = (if p = [] then Some 0 else None)"
| "indexOf (c # cs) p =
     (if startsWith (c # cs) p then Some 0 else map_option Suc (indexOf cs p))"

fun getSubstitution :: "string \<Rightarrow> string \<Rightarrow> string \<Rightarrow> string \<Rightarrow> string" where
  "getSubstitution matched before after [] = []"
| "getSubstitution matched before after [c] = [c]"
| "getSubstitution matched before after (c # d # r) =
     (if c = CHR ''$'' then
        (if d = CHR ''$'' then CHR ''$'' # getSubstitution matched before after r
         else if d = CHR ''&'' then matched @ getSubstitution matched before after r
         else if d = CHR 0x60 then before @ getSubstitution matched before after r
         else if d = CHR 0x27 then after @ getSubstitution matched before after r
         else c # getSubstitution matched before after (d # r))
      else c # getSubstitution matched before after (d # r))"

definition js_replace :: "string \<Rightarrow> string \<Rightarrow> string \<Rightarrow> string" where
  "js_replace s p r =
     (case indexOf s p of
        None \<Rightarrow> s
      | Some i \<Rightarrow>
          take i s @ getSubstitution p (take i s) (drop (i + length p) s) r
            @ drop (i + length p) s)"

subsection \<open>SHA-256 and HMAC, as \<open>crypto.createHmac('sha256', secret)\<close> computes them\<close>

type_synonym byte = "8 word"
type_synonym w32 = "32 word"

definition K256 :: "w32 list" where
  "K256 = [
     1116352408, 1899447441, 3049323471, 3921009573, 961987163, 1508970993,
     2453635748, 2870763221, 3624381080, 310598401, 607225278, 1426881987,
     1925078388, 2162078206, 2614888103, 3248222580, 3835390401, 4022224774,
     264347078, 604807628, 770255983, 1249150122, 1555081692, 1996064986,
     2554220882, 2821834349, 2952996808, 3210313671, 3336571891, 3584528711,
     113926993, 338241895, 666307205, 773529912, 1294757372, 1396182291,
     1695183700, 1986661051, 2177026350, 2456956037, 2730485921, 2820302411,
     3259730800, 3345764771, 3516065817, 3600352804, 4094571909, 275423344,
     430227734, 506948616, 659060556, 883997877, 958139571, 1322822218,
     1537002063, 1747873779, 1955562222, 2024104815, 2227730452, 2361852424,
     2428436474, 2756734187, 3204031479, 3329325298]"

definition H256 :: "w32 list" where
  "H256 = [
     1779033703, 3144134277, 1013904242, 2773480762,
     1359893119, 2600822924, 528734635, 1541459225]"

definition rotr :: "nat \<Rightarrow> w32 \<Rightarrow> w32" where
  "rotr n x = drop_bit n x OR push_bit (32 - n) x"

definition Ch :: "w32 \<Rightarrow> w32 \<Rightarrow> w32 \<Rightarrow> w32" where
  "Ch x y z = (x AND y) XOR (NOT x AND z)"

definition Maj :: "w32 \<Rightarrow> w32 \<Rightarrow> w32 \<Rightarrow> w32" where
  "Maj x y z = (x AND y) XOR (x AND z) XOR (y AND z)"

definition bsig0 :: "w32 \<Rightarrow> w32" where
  "bsig0 x = rotr 2 x XOR rotr 13 x XOR rotr 22 x"

definition bsig1 :: "w32 \<Rightarrow> w32" where
  "bsig1 x = rotr 6 x XOR rotr 11 x XOR rotr 25 x"

definition ssig0 :: "w32 \<Rightarrow> w32" where
  "ssig0 x = rotr 7 x XOR rotr 18 x XOR drop_bit 3 x"

definition ssig1 :: "w32 \<Rightarrow> w32" where
  "ssig1 x = rotr 17 x XOR rotr 19 x XOR drop_bit 10 x"

text \<open>The message schedule, newest word first: \<open>extend\<close> adds \<open>W\<^sub>t\<close> from
  \<open>W\<^sub>t\<^sub>-\<^sub>2\<close>, \<open>W\<^sub>t\<^sub>-\<^sub>7\<close>, \<open>W\<^sub>t\<^sub>-\<^sub>1\<^sub>5\<close> and \<open>W\<^sub>t\<^sub>-\<^sub>1\<^sub>6\<close>.\<close>

fun extend :: "w32 list \<Rightarrow> w32 list" where
  "extend (w1 # w2 # w3 # w4 # w5 # w6 # w7 # w8 # w9 # w10 # w11 # w12 # w13 # w14 # w15 # w16 # r) =
     (ssig1 w2 + w7 + ssig0 w15 + w16)
       # w1 # w2 # w3 # w4 # w5 # w6 # w7 # w8 # w9 # w10 # w11 # w12 # w13 # w14 # w15 # w16 # r"
| "extend ws = ws"

primrec iterExtend :: "nat \<Rightarrow> w32 list \<Rightarrow> w32 list" where
  "iterExtend 0 ws = ws"
| "iterExtend (Suc n) ws = iterExtend n (extend ws)"

definition schedule :: "w32 list \<Rightarrow> w32 list" where
  "schedule m = rev (iterExtend 48 (rev m))"

fun finishRound :: "w32 list \<Rightarrow> w32 \<Rightarrow> w32 \<Rightarrow> w32 list" where
  "finishRound [a, b, c, d, e, f, g, h] t1 t2 = [t1 + t2, a, b, c, d + t1, e, f, g]"
| "finishRound st t1 t2 = st"

fun round1 :: "w32 list \<Rightarrow> w32 \<Rightarrow> w32 \<Rightarrow> w32 list" where
  "round1 [a, b, c, d, e, f, g, h] k w =
     finishRound [a, b, c, d, e, f, g, h] (h + bsig1 e + Ch e f g + k + w) (bsig0 a + Maj a b c)"
| "round1 st k w = st"

fun rounds :: "w32 list \<Rightarrow> w32 list \<Rightarrow> w32 list \<Rightarrow> w32 list" where
  "rounds st (k # ks) (w # ws) = rounds (round1 st k w) ks ws"
| "rounds st ks ws = st"

fun be32 :: "byte list \<Rightarrow> w32" where
  "be32 [a, b, c, d] =
     push_bit 24 (ucast a) OR push_bit 16 (ucast b) OR push_bit 8 (ucast c) OR ucast d"
| "be32 bs = 0"

function chunks :: "nat \<Rightarrow> 'a list \<Rightarrow> 'a list list" where
  "chunks n xs = (if n = 0 \<or> xs = [] then [] else take n xs # chunks n (drop n xs))"
  by pat_completeness auto
termination
  by (relation "measure (\<lambda>(n, xs). length xs)") auto

definition compress :: "w32 list \<Rightarrow> byte list \<Rightarrow> w32 list" where
  "compress hs block = map2 (+) hs (rounds hs K256 (schedule (map be32 (chunks 4 block))))"

definition lengthBytes :: "nat \<Rightarrow> byte list" where
  "lengthBytes n = map (\<lambda>i. word_of_nat (drop_bit i n)) [56, 48, 40, 32, 24, 16, 8, 0]"

definition pad :: "byte list \<Rightarrow> byte list" where
  "pad bs =
     bs @ [128] @ replicate ((119 - length bs mod 64) mod 64) 0 @ lengthBytes (8 * length bs)"

definition w32Bytes :: "w32 \<Rightarrow> byte list" where
  "w32Bytes w = [ucast (drop_bit 24 w), ucast (drop_bit 16 w), ucast (drop_bit 8 w), ucast w]"

definition sha256 :: "byte list \<Rightarrow> byte list" where
  "sha256 bs = concat (map w32Bytes (foldl compress H256 (chunks 64 (pad bs))))"

definition hmacKey :: "byte list \<Rightarrow> byte list" where
  "hmacKey key =
     (if length key > 64 then sha256 key @ replicate 32 0
      else key @ replicate (64 - length key) 0)"

definition hmacSha256 :: "byte list \<Rightarrow> byte list \<Rightarrow> byte list" where
  "hmacSha256 key msg =
     sha256 (map (\<lambda>b. b XOR 92) (hmacKey key)
       @ sha256 (map (\<lambda>b. b XOR 54) (hmacKey key) @ msg))"

text \<open>A string handed to \<open>createHmac\<close> or \<open>update\<close> is hashed as its UTF-8 bytes.\<close>

definition utf8 :: "string \<Rightarrow> byte list" where
  "utf8 s =
     concat (map (\<lambda>c. if of_char c < (128 :: nat) then [of_char c]
                        else [word_of_nat (192 + of_char c div 64),
                              word_of_nat (128 + of_char c mod 64)]) s)"

definition hexDigit :: "nat \<Rightarrow> char" where
  "hexDigit n = ''0123456789abcdef'' ! n"

definition toHex :: "byte list \<Rightarrow> string" where
  "toHex bs = concat (map (\<lambda>b. [hexDigit (unat b div 16), hexDigit (unat b mod 16)]) bs)"

subsection \<open>Handshake utilities\<close>

text \<open>The exceptions the embedded code can throw: \<open>crypto.timingSafeEqual\<close> a
  RangeError, the conversion of a value to a string a TypeError.\<close>

datatype js_error = RangeError | TypeError

text \<open>Sequencing of a step that can throw: an exception ends the computation.\<close>

fun andThen :: "js_error + 'a \<Rightarrow> ('a \<Rightarrow> js_error + 'b) \<Rightarrow> js_error + 'b" where
  "andThen (Inl err) f = Inl err"
| "andThen (Inr x) f = f x"

definition computeHandshakeResponse :: "string \<Rightarrow> string \<Rightarrow> string" where
  "computeHandshakeResponse challenge secret = toHex (hmacSha256 (utf8 secret) (utf8 challenge))"

text \<open>\<open>Buffer.from(s, 'hex')\<close>: two hex digits (either case) make a byte; decoding stops
  at the first pair that is not two hex digits, and a trailing single character is
  dropped.\<close>

definition unhex :: "char \<Rightarrow> nat option" where
  "unhex c =
     (let n = of_char c :: nat
      in if 48 \<le> n \<and> n \<le> 57 then Some (n - 48)
         else if 97 \<le> n \<and> n \<le> 102 then Some (n - 87)
         else if 65 \<le> n \<and> n \<le> 70 then Some (n - 55)
         else None)"

fun bufferFromHex :: "string \<Rightarrow> byte list" where
  "bufferFromHex (a # b # r) =
     (case unhex a of
        None \<Rightarrow> []
      | Some x \<Rightarrow>
          (case unhex b of
             None \<Rightarrow> []
           | Some y \<Rightarrow> word_of_nat (16 * x + y) # bufferFromHex r))"
| "bufferFromHex s = []"

text \<open>\<open>crypto.timingSafeEqual\<close> throws a RangeError when the two buffers differ in byte
  length, and compares them otherwise.\<close>

definition timingSafeEqual :: "byte list \<Rightarrow> byte list \<Rightarrow> js_error + bool" where
  "timingSafeEqual a b = (if length a = length b then Inr (a = b) else Inl RangeError)"

definition isValidHandshakeResponse :: "string \<Rightarrow> string \<Rightarrow> string \<Rightarrow> js_error + bool" where
  "isValidHandshakeResponse challenge response secret =
     timingSafeEqual (bufferFromHex response)
       (bufferFromHex (computeHandshakeResponse challenge secret))"

subsection \<open>JSON values\<close>

text \<open>
  The values the status diff sees. A number carries its canonical text (what
  \<open>String(x)\<close> gives), which identifies a number value other than NaN; JSON has no NaN.
  An object is the list of its own properties in the order \<open>Object.keys\<close> lists them;
  a list with a repeated key stands for the object of its first bindings.
  \<open>JObjectPrototype\<close> is \<open>Object.prototype\<close> itself and \<open>JBuiltin name\<close> the
  function \<open>Object.prototype[name]\<close>: a property read on a plain object finds them
  when the object has no own property of that name.
\<close>

datatype jsval =
    JUndefined
  | JNull
  | JBool bool
  | JNum string
  | JStr string
  | JArr "jsval list"
  | JObj "(string \<times> jsval) list"
  | JObjectPrototype
  | JBuiltin string

type_synonym jsobj = "(string \<times> jsval) list"

datatype jstype = TUndefined | TObject | TBoolean | TNumber | TString | TFunction

fun typeof :: "jsval \<Rightarrow> jstype" where
  "typeof JUndefined = TUndefined"
| "typeof JNull = TObject"
| "typeof (JBool b) = TBoolean"
| "typeof (JNum n) = TNumber"
| "typeof (JStr s) = TString"
| "typeof (JArr xs) = TObject"
| "typeof (JObj kvs) = TObject"
| "typeof JObjectPrototype = TObject"
| "typeof (JBuiltin f) = TFunction"

text \<open>\<open>a === b\<close>. Two arrays or objects are strictly equal only when they are the same
  object; the embedding has values, not references, and answers False for them. Where the
  source compares an object with itself, \<open>deepCompare\<close> goes on to compare the two
  structurally and answers True all the same (lemma \<open>deepCompare_refl\<close>).\<close>

fun strictEq :: "jsval \<Rightarrow> jsval \<Rightarrow> bool" where
  "strictEq JUndefined JUndefined = True"
| "strictEq JNull JNull = True"
| "strictEq (JBool a) (JBool b) = (a = b)"
| "strictEq (JNum a) (JNum b) = (a = b)"
| "strictEq (JStr a) (JStr b) = (a = b)"
| "strictEq JObjectPrototype JObjectPrototype = True"
| "strictEq (JBuiltin f) (JBuiltin g) = (f = g)"
| "strictEq a b = False"

fun isNullish :: "jsval \<Rightarrow> bool" where
  "isNullish JUndefined = True"
| "isNullish JNull = True"
| "isNullish v = False"

text \<open>\<open>if (v)\<close>: every value is truthy but undefined, null, false, the number zero and
  the empty string (JSON has no NaN).\<close>

fun truthy :: "jsval \<Rightarrow> bool" where
  "truthy JUndefined = False"
| "truthy JNull = False"
| "truthy (JBool b) = b"
| "truthy (JNum n) = (n \<noteq> ''0'')"
| "truthy (JStr s) = (s \<noteq> [])"
| "truthy v = True"

text \<open>\<open>String(v)\<close>, the conversion that a template literal and the replacement argument
  of \<open>String.prototype.replace\<close> apply. An array is joined with commas, undefined and
  null elements giving the empty string. A plain object is converted by the
  \<open>toString\<close> it inherits, unless it has an own property \<open>toString\<close>: a value
  parsed from JSON is never callable, the inherited \<open>valueOf\<close> returns the object
  itself, and the conversion throws a TypeError.\<close>

fun toStringJS :: "jsval \<Rightarrow> js_error + string"
  and joinElements :: "jsval list \<Rightarrow> js_error + string" where
  "toStringJS JUndefined = Inr ''undefined''"
| "toStringJS JNull = Inr ''null''"
| "toStringJS (JBool b) = Inr (if b then ''true'' else ''false'')"
| "toStringJS (JNum n) = Inr n"
| "toStringJS (JStr s) = Inr s"
| "toStringJS (JArr xs) = joinElements xs"
| "toStringJS (JObj kvs) =
     (if ''toString'' \<in> fst ` set kvs then Inl TypeError else Inr ''[object Object]'')"
| "toStringJS JObjectPrototype = Inr ''[object Object]''"
| "toStringJS (JBuiltin f) = Inr (''function '' @ f @ ''() { [native code] }'')"
| "joinElements [] = Inr []"
| "joinElements (x # xs) =
     (case (if isNullish x then Inr [] else toStringJS x) of
        Inl err \<Rightarrow> Inl err
      | Inr t \<Rightarrow>
          (case joinElements xs of
             Inl err \<Rightarrow> Inl err
           | Inr r \<Rightarrow> Inr (if xs = [] then t else t @ '','' @ r)))"

text \<open>The elements of \<open>new Set(xs)\<close> in insertion order: first occurrences.\<close>

primrec firstOccurrences :: "'a list \<Rightarrow> 'a list \<Rightarrow> 'a list" where
  "firstOccurrences seen [] = []"
| "firstOccurrences seen (x # xs) =
     (if x \<in> set seen then firstOccurrences seen xs
      else x # firstOccurrences (x # seen) xs)"

definition objectKeys :: "jsobj \<Rightarrow> string list" where
  "objectKeys kvs = firstOccurrences [] (map fst kvs)"

function decimal :: "nat \<Rightarrow> string" where
  "decimal n =
     (if n < 10 then [char_of (48 + n)] else decimal (n div 10) @ [char_of (48 + n mod 10)])"
  by pat_completeness auto
termination
  by (relation "measure id") auto

text \<open>The own enumerable properties of a value of type object: an array's are its
  elements under their indices.\<close>

fun entriesOf :: "jsval \<Rightarrow> jsobj" where
  "entriesOf (JObj kvs) = kvs"
| "entriesOf (JArr xs) = zip (map decimal [0..<length xs]) xs"
| "entriesOf v = []"

definition ownGet :: "jsval \<Rightarrow> string \<Rightarrow> jsval" where
  "ownGet v k = (case map_of (entriesOf v) k of Some x \<Rightarrow> x | None \<Rightarrow> JUndefined)"

function deepCompare :: "jsval \<Rightarrow> jsval \<Rightarrow> bool" where
  "deepCompare obj1 obj2 =
     (if strictEq obj1 obj2 then True
      else if isNullish obj1 \<or> isNullish obj2 then False
      else if typeof obj1 = typeof obj2 then
        (if typeof obj1 = TObject then
           (if length (objectKeys (entriesOf obj1)) = length (objectKeys (entriesOf obj2)) then
              list_all (\<lambda>key. key \<in> set (objectKeys (entriesOf obj2))
                          \<and> deepCompare (ownGet obj1 key) (ownGet obj2 key))
                (objectKeys (entriesOf obj1))
            else False)
         else strictEq obj1 obj2)
      else False)"
  by pat_completeness auto
termination
proof (relation "measure (\<lambda>(a, b). size a)", goal_cases)
  case 1
  show ?case by simp
next
  case (2 obj1 obj2 key)
  have fo: "set (firstOccurrences seen xs) \<subseteq> set xs" for seen and xs :: "string list"
    by (induction xs arbitrary: seen) auto
  have m: "map_of kvs k = Some v \<Longrightarrow> size v < Suc (size_list (size_prod (\<lambda>x. 0) size) kvs)"
    for kvs :: jsobj and k v
    by (induction kvs) (auto split: if_splits)
  have z: "(k, v) \<in> set (zip (map decimal [0..<length xs]) xs) \<Longrightarrow> size v < Suc (size_list size xs)"
    for xs :: "jsval list" and k v
    by (auto dest!: set_zip_rightD simp: less_Suc_eq_le size_list_estimation')
  from 2 have "key \<in> fst ` set (entriesOf obj1)"
    using fo [of "[]" "map fst (entriesOf obj1)"] by (auto simp: objectKeys_def)
  then obtain v where v: "map_of (entriesOf obj1) key = Some v"
    by (metis domD dom_map_of_conv_image_fst)
  then have g: "ownGet obj1 key = v"
    by (simp add: ownGet_def)
  have "size v < size obj1"
  proof (cases obj1)
    case (JArr xs)
    with v have "(key, v) \<in> set (zip (map decimal [0..<length xs]) xs)"
      by (auto dest: map_of_SomeD)
    with JArr show ?thesis using z by auto
  next
    case (JObj kvs)
    with v show ?thesis using m [of kvs key v] by auto
  qed (use v in auto)
  with g show ?case by simp
qed

text \<open>\<open>oldState?.[key]\<close> on a plain object: the own property, else what the object
  inherits from \<open>Object.prototype\<close>.\<close>

definition objectPrototypeFunctions :: "string list" where
  "objectPrototypeFunctions =
     [''constructor'', ''hasOwnProperty'', ''isPrototypeOf'', ''propertyIsEnumerable'',
      ''toString'', ''toLocaleString'', ''valueOf'', ''__defineGetter__'',
      ''__defineSetter__'', ''__lookupGetter__'', ''__lookupSetter__'']"

definition propertyOf :: "jsobj \<Rightarrow> string \<Rightarrow> jsval" where
  "propertyOf kvs k =
     (case map_of kvs k of
        Some v \<Rightarrow> v
      | None \<Rightarrow>
          if k = ''__proto__'' then JObjectPrototype
          else if k \<in> set objectPrototypeFunctions then JBuiltin k
          else JUndefined)"

text \<open>Property order: a key that is an array index (the canonical decimal text of an
  integer below \<open>2\<^sup>3\<^sup>2 - 1\<close>) comes before every other key, the indices in
  ascending order; the other keys follow in the order they were first set.\<close>

definition digitsValue :: "string \<Rightarrow> nat" where
  "digitsValue k = foldl (\<lambda>a c. 10 * a + (of_char c - 48)) 0 k"

definition isArrayIndex :: "string \<Rightarrow> bool" where
  "isArrayIndex k =
     (k \<noteq> [] \<and> list_all (\<lambda>c. 48 \<le> (of_char c :: nat) \<and> (of_char c :: nat) \<le> 57) k
      \<and> (k = ''0'' \<or> hd k \<noteq> CHR ''0'') \<and> length k \<le> 10 \<and> digitsValue k < 4294967295)"

fun insertIndex :: "string \<Rightarrow> jsval \<Rightarrow> jsobj \<Rightarrow> jsobj" where
  "insertIndex k v [] = [(k, v)]"
| "insertIndex k v ((k', v') # r) =
     (if isArrayIndex k' \<and> digitsValue k' < digitsValue k then (k', v') # insertIndex k v r
      else (k, v) # (k', v') # r)"

definition setProperty :: "jsobj \<Rightarrow> string \<Rightarrow> jsval \<Rightarrow> jsobj" where
  "setProperty kvs k v =
     (if k \<in> fst ` set kvs then map (\<lambda>(k', v'). if k' = k then (k', v) else (k', v')) kvs
      else if isArrayIndex k then insertIndex k v kvs
      else kvs @ [(k, v)])"

text \<open>\<open>{ ...obj }\<close>: a fresh object with the own properties of \<open>obj\<close>.\<close>

definition spread :: "jsobj \<Rightarrow> jsobj" where
  "spread kvs = fold (\<lambda>k acc. setProperty acc k (ownGet (JObj kvs) k)) (objectKeys kvs) []"

text \<open>The object \<open>changes\<close> of \<open>getChangedFields\<close>. The assignment
  \<open>changes[key] = value\<close> sets an own property, except for the key \<open>__proto__\<close>,
  which runs the setter of \<open>Object.prototype\<close>: an object, a function or null becomes
  the prototype of \<open>changes\<close>, any other value is ignored.\<close>

datatype prototype = ObjectPrototype | NullPrototype | PrototypeIs jsval

record changes =
  chOwn :: jsobj
  chProto :: prototype

definition assign :: "changes \<Rightarrow> string \<Rightarrow> jsval \<Rightarrow> changes" where
  "assign ch k v =
     (if k = ''__proto__'' then
        (case v of
           JObj kvs \<Rightarrow> ch\<lparr>chProto := PrototypeIs v\<rparr>
         | JArr xs \<Rightarrow> ch\<lparr>chProto := PrototypeIs v\<rparr>
         | JBuiltin f \<Rightarrow> ch\<lparr>chProto := PrototypeIs v\<rparr>
         | JObjectPrototype \<Rightarrow> ch\<lparr>chProto := ObjectPrototype\<rparr>
         | JNull \<Rightarrow> ch\<lparr>chProto := NullPrototype\<rparr>
         | _ \<Rightarrow> ch)
      else ch\<lparr>chOwn := setProperty (chOwn ch) k v\<rparr>)"

definition getChangedFields :: "jsobj \<Rightarrow> jsobj \<Rightarrow> changes option" where
  "getChangedFields oldState newState =
     (let allKeys = firstOccurrences [] (objectKeys oldState @ objectKeys newState);
          changes = fold (\<lambda>key ch.
                      if deepCompare (propertyOf oldState key) (propertyOf newState key) then ch
                      else assign ch key (propertyOf newState key))
                    allKeys \<lparr>chOwn = [], chProto = ObjectPrototype\<rparr>
      in if length (objectKeys (chOwn changes)) > 0 then Some changes else None)"

text \<open>The four tracked status fields, and the read \<open>changes.loaded\<close> (and its three
  siblings): the own property, else the property of a prototype that the assignment to
  \<open>__proto__\<close> installed. None of the four names is a member of \<open>Object.prototype\<close>,
  \<open>Array.prototype\<close> or \<open>Function.prototype\<close>.\<close>

datatype status_field = Loaded | Logged | ScriptRunning | LoadedScript

fun fieldName :: "status_field \<Rightarrow> string" where
  "fieldName Loaded = ''loaded''"
| "fieldName Logged = ''logged''"
| "fieldName ScriptRunning = ''scriptRunning''"
| "fieldName LoadedScript = ''loadedScript''"

definition changedField :: "changes \<Rightarrow> status_field \<Rightarrow> jsval" where
  "changedField ch f =
     (case map_of (chOwn ch) (fieldName f) of
        Some v \<Rightarrow> v
      | None \<Rightarrow>
          (case chProto ch of
             PrototypeIs (JObj p) \<Rightarrow> propertyOf p (fieldName f)
           | _ \<Rightarrow> JUndefined))"

subsection \<open>The server state\<close>

definition MAX_LOGS :: nat where
  "MAX_LOGS = 1000"

definition HANDSHAKE_TIMEOUT :: int where
  "HANDSHAKE_TIMEOUT = 10000"

text \<open>A TCP socket: the remote end point, what the server wrote to it, and whether
  \<open>destroy()\<close> was called. Sockets live in a store indexed by numbers, so that the map
  \<open>tcpClients\<close> and the closures of the connection handler can hold the same socket.\<close>

record socket =
  remoteAddress :: string
  remotePort :: string
  written :: "string list"
  destroyed :: bool

record handshake =
  challenge :: string
  timestamp :: int
  authenticated :: bool

text \<open>\<open>checker\<close> is True while an interval handle is stored, False when it is null.\<close>

record username_status =
  hasUsername :: bool
  requestSent :: bool
  checker :: bool

record client_status =
  loaded :: jsval
  logged :: jsval
  scriptRunning :: jsval
  loadedScript :: jsval

text \<open>The objects handed to \<open>broadcastToBrowsers\<close>, by their \<open>type\<close>, as they are
  before \<open>JSON.stringify\<close> turns them into text.\<close>

datatype event =
    ClientConnect clientId jsval
  | ClientDisconnect clientId
  | UpdateTabName clientId jsval
  | UpdateStatus clientId status_field jsval
  | StatusUpdateJson clientId jsobj jsobj jsval string
  | LogEvent clientId string
  | MasterLogEvent string
  | ClearMasterLog

record env =
  now :: int
  isoTime :: string
  localTime :: string

text \<open>The display name of a client is whatever value a message put there: the code stores
  any truthy \<open>clientName\<close> or \<open>username\<close> without looking at its type.\<close>

record server =
  tcpClients :: "(clientId \<times> nat) list"
  clientLogs :: "clientId \<rightharpoonup> string list"
  clientNames :: "clientId \<rightharpoonup> jsval"
  clientStatus :: "clientId \<rightharpoonup> client_status"
  clientLastHeartbeat :: "clientId \<rightharpoonup> int"
  masterLog :: "string list"
  pendingHandshakes :: "(clientId \<times> handshake) list"
  clientStateCache :: "clientId \<rightharpoonup> jsobj"
  clientUsernameStatus :: "clientId \<rightharpoonup> username_status"
  HANDSHAKE_SECRET :: string
  sockets :: "nat \<Rightarrow> socket"
  published :: "event list"

text \<open>A JSON message as \<open>processJsonMessage\<close> destructures it. The fields \<open>type\<close>,
  \<open>timestamp\<close>, \<open>clientName\<close> and \<open>username\<close> hold any JSON value, \<open>JUndefined\<close> when
  the message has no such field. \<open>status\<close> is an object, or None for an absent or falsy
  status, and \<open>message\<close> a string, or None when absent: a message that carries another
  kind of value in one of these two fields is outside the embedding.\<close>

record json_message =
  msgType :: jsval
  msgTimestamp :: jsval
  msgClientName :: jsval
  msgStatus :: "jsobj option"
  msgMessage :: "string option"
  msgUsername :: jsval

definition getClientId :: "socket \<Rightarrow> clientId" where
  "getClientId sock = remoteAddress sock @ '':'' @ remotePort sock"

text \<open>The read \<open>clientNames[clientId]\<close>.\<close>

definition displayName :: "server \<Rightarrow> clientId \<Rightarrow> jsval" where
  "displayName s cid = (case clientNames s cid of None \<Rightarrow> JUndefined | Some name \<Rightarrow> name)"

subsection \<open>Helpers\<close>

definition broadcastToBrowsers :: "event \<Rightarrow> server \<Rightarrow> server" where
  "broadcastToBrowsers ev s = s\<lparr>published := published s @ [ev]\<rparr>"

text \<open>\<open>ring.push(msg); if (ring.length > MAX_LOGS) ring.shift()\<close>\<close>

definition pushLog :: "string list \<Rightarrow> string \<Rightarrow> string list" where
  "pushLog ring msg = (if length (ring @ [msg]) > MAX_LOGS then tl (ring @ [msg]) else ring @ [msg])"

definition addClientLog :: "clientId \<Rightarrow> string \<Rightarrow> server \<Rightarrow> server" where
  "addClientLog cid msg s =
     broadcastToBrowsers (LogEvent cid msg)
       (s\<lparr>clientLogs := (clientLogs s)
            (cid \<mapsto> pushLog (case clientLogs s cid of None \<Rightarrow> [] | Some ring \<Rightarrow> ring) msg)\<rparr>)"

text \<open>The message of a master-log entry: \<open>msg.replace(clientId, clientNames[clientId])\<close>
  when the id and the display name are truthy. \<open>replace\<close> converts the display name to a
  string before it searches, so a name that cannot be converted makes it throw.\<close>

definition masterLogText :: "string \<Rightarrow> clientId option \<Rightarrow> server \<Rightarrow> js_error + string" where
  "masterLogText msg clientId s =
     (case clientId of
        None \<Rightarrow> Inr msg
      | Some cid \<Rightarrow>
          if cid \<noteq> [] \<and> truthy (displayName s cid) then
            (case toStringJS (displayName s cid) of
               Inl err \<Rightarrow> Inl err
             | Inr name \<Rightarrow> Inr (js_replace msg cid name))
          else Inr msg)"

definition addMasterLog :: "env \<Rightarrow> string \<Rightarrow> clientId option \<Rightarrow> server \<Rightarrow> js_error + server" where
  "addMasterLog e msg clientId s =
     (case masterLogText msg clientId s of
        Inl err \<Rightarrow> Inl err
      | Inr text \<Rightarrow>
          Inr (broadcastToBrowsers (MasterLogEvent (''['' @ localTime e @ ''] '' @ text))
                 (s\<lparr>masterLog := pushLog (masterLog s) (''['' @ localTime e @ ''] '' @ text)\<rparr>)))"

definition clearMasterLog :: "server \<Rightarrow> server" where
  "clearMasterLog s = broadcastToBrowsers ClearMasterLog (s\<lparr>masterLog := []\<rparr>)"

definition defaultStatus :: client_status where
  "defaultStatus =
     \<lparr>loaded = JBool False, logged = JBool False, scriptRunning = JBool False, loadedScript = JStr []\<rparr>"

fun setStatusField :: "status_field \<Rightarrow> jsval \<Rightarrow> client_status \<Rightarrow> client_status" where
  "setStatusField Loaded v st = st\<lparr>loaded := v\<rparr>"
| "setStatusField Logged v st = st\<lparr>logged := v\<rparr>"
| "setStatusField ScriptRunning v st = st\<lparr>scriptRunning := v\<rparr>"
| "setStatusField LoadedScript v st = st\<lparr>loadedScript := v\<rparr>"

definition updateStatus :: "clientId \<Rightarrow> status_field \<Rightarrow> jsval \<Rightarrow> server \<Rightarrow> server" where
  "updateStatus cid field v s =
     broadcastToBrowsers (UpdateStatus cid field v)
       (s\<lparr>clientStatus := (clientStatus s)
            (cid \<mapsto> setStatusField field v
               (case clientStatus s cid of None \<Rightarrow> defaultStatus | Some st \<Rightarrow> st))\<rparr>)"

text \<open>A write to a destroyed socket reaches nobody.\<close>

definition socketWrite :: "nat \<Rightarrow> string \<Rightarrow> server \<Rightarrow> server" where
  "socketWrite sid data s =
     (if destroyed (sockets s sid) then s
      else s\<lparr>sockets := (sockets s)
             (sid := (sockets s sid)\<lparr>written := written (sockets s sid) @ [data]\<rparr>)\<rparr>)"

definition socketDestroy :: "nat \<Rightarrow> server \<Rightarrow> server" where
  "socketDestroy sid s = s\<lparr>sockets := (sockets s)(sid := (sockets s sid)\<lparr>destroyed := True\<rparr>)\<rparr>"

definition stopUsernameChecker :: "clientId \<Rightarrow> server \<Rightarrow> server" where
  "stopUsernameChecker cid s =
     (case clientUsernameStatus s cid of
        None \<Rightarrow> s
      | Some u \<Rightarrow>
          if checker u then
            addClientLog cid ''[Username checker stopped]''
              (s\<lparr>clientUsernameStatus := (clientUsernameStatus s)(cid \<mapsto> u\<lparr>checker := False\<rparr>)\<rparr>)
          else s)"

definition cleanupClient :: "clientId \<Rightarrow> server \<Rightarrow> server" where
  "cleanupClient cid s =
     (let s1 = stopUsernameChecker cid
                 (s\<lparr>tcpClients := AList.delete cid (tcpClients s),
                     clientLogs := (clientLogs s)(cid := None),
                     clientNames := (clientNames s)(cid := None),
                     clientStatus := (clientStatus s)(cid := None),
                     clientLastHeartbeat := (clientLastHeartbeat s)(cid := None),
                     pendingHandshakes := AList.delete cid (pendingHandshakes s),
                     clientStateCache := (clientStateCache s)(cid := None)\<rparr>)
      in s1\<lparr>clientUsernameStatus := (clientUsernameStatus s1)(cid := None)\<rparr>)"

definition isClientAuthenticated :: "clientId \<Rightarrow> server \<Rightarrow> bool" where
  "isClientAuthenticated cid s =
     (case map_of (pendingHandshakes s) cid of None \<Rightarrow> False | Some h \<Rightarrow> authenticated h)"

subsection \<open>Handshake\<close>

text \<open>\<open>startHandshake\<close>: the challenge is the 64 hex digits that \<open>generateChallenge\<close>
  drew. The timer it sets fires \<open>handshakeTimeout\<close> after \<open>HANDSHAKE_TIMEOUT\<close>
  milliseconds; the timer is never cancelled.\<close>

definition startHandshake :: "env \<Rightarrow> nat \<Rightarrow> clientId \<Rightarrow> string \<Rightarrow> server \<Rightarrow> js_error + server" where
  "startHandshake e sid cid chal s =
     addMasterLog e (''Handshake challenge sent to '' @ cid) (Some cid)
       (socketWrite sid (''$HandshakeChallenge:'' @ chal @ [CHR 0x0A])
          (s\<lparr>pendingHandshakes := AList.update cid
                \<lparr>challenge = chal, timestamp = now e, authenticated = False\<rparr>
                (pendingHandshakes s)\<rparr>))"

definition handshakeTimeout :: "env \<Rightarrow> nat \<Rightarrow> clientId \<Rightarrow> server \<Rightarrow> js_error + server" where
  "handshakeTimeout e sid cid s =
     (case map_of (pendingHandshakes s) cid of
        None \<Rightarrow> Inr s
      | Some h \<Rightarrow>
          if authenticated h then Inr s
          else andThen (addMasterLog e (''Handshake timeout for '' @ cid) (Some cid) s)
                 (\<lambda>s1. Inr (broadcastToBrowsers (ClientDisconnect cid)
                              (cleanupClient cid (socketDestroy sid s1)))))"

definition startUsernameChecker :: "clientId \<Rightarrow> server \<Rightarrow> server" where
  "startUsernameChecker cid s =
     (if (case clientUsernameStatus s cid of None \<Rightarrow> False | Some u \<Rightarrow> checker u) then s
      else addClientLog cid ''[Started username monitoring]''
             (s\<lparr>clientUsernameStatus := (clientUsernameStatus s)
                  (cid \<mapsto> \<lparr>hasUsername = False, requestSent = False, checker = True\<rparr>)\<rparr>))"

definition processHandshakeResponse ::
  "env \<Rightarrow> nat \<Rightarrow> clientId \<Rightarrow> string \<Rightarrow> server \<Rightarrow> js_error + bool \<times> server" where
  "processHandshakeResponse e sid cid response s =
     (case map_of (pendingHandshakes s) cid of
        None \<Rightarrow>
          andThen (addMasterLog e (''Unexpected handshake response from '' @ cid) (Some cid) s)
            (\<lambda>s1. Inr (False, socketDestroy sid s1))
      | Some h \<Rightarrow>
          if now e - timestamp h > HANDSHAKE_TIMEOUT then
            andThen (addMasterLog e (''Handshake response too late from '' @ cid) (Some cid) s)
              (\<lambda>s1. Inr (False,
                      broadcastToBrowsers (ClientDisconnect cid)
                        (cleanupClient cid (socketDestroy sid s1))))
          else
            (case isValidHandshakeResponse (challenge h) response (HANDSHAKE_SECRET s) of
               Inl err \<Rightarrow> Inl err
             | Inr True \<Rightarrow>
                 andThen
                   (addMasterLog e (''Handshake successful for '' @ cid) (Some cid)
                      (socketWrite sid (''$HandshakeSuccess'' @ [CHR 0x0A])
                         (s\<lparr>pendingHandshakes := AList.update cid (h\<lparr>authenticated := True\<rparr>)
                               (pendingHandshakes s)\<rparr>)))
                   (\<lambda>s1. Inr (True, startUsernameChecker cid s1))
             | Inr False \<Rightarrow>
                 andThen
                   (addMasterLog e (''Handshake failed for '' @ cid @ '' - invalid response'')
                      (Some cid) s)
                   (\<lambda>s1. Inr (False,
                      broadcastToBrowsers (ClientDisconnect cid)
                        (cleanupClient cid (socketDestroy sid s1))))))"

subsection \<open>Username requests\<close>

definition usernameRequest :: "env \<Rightarrow> string" where
  "usernameRequest e =
     ''{'' @ [CHR 0x22] @ ''type'' @ [CHR 0x22] @ '':'' @ [CHR 0x22] @ ''username_request'' @ [CHR 0x22]
       @ '','' @ [CHR 0x22] @ ''protocolVersion'' @ [CHR 0x22] @ '':'' @ [CHR 0x22] @ ''1.0'' @ [CHR 0x22]
       @ '','' @ [CHR 0x22] @ ''timestamp'' @ [CHR 0x22] @ '':'' @ [CHR 0x22] @ isoTime e @ [CHR 0x22]
       @ ''}''"

definition sendUsernameRequest :: "env \<Rightarrow> clientId \<Rightarrow> server \<Rightarrow> bool \<times> server" where
  "sendUsernameRequest e cid s =
     (case map_of (tcpClients s) cid of
        None \<Rightarrow> (False, s)
      | Some sid \<Rightarrow>
          if isClientAuthenticated cid s then
            (True,
              addClientLog cid ''[Server requested username from client]''
                (socketWrite sid (usernameRequest e @ [CHR 0x0A]) s))
          else (False, s))"

text \<open>The callback of the interval that \<open>startUsernameChecker\<close> sets. The runtime calls
  it once a second while the handle is not cleared, that is while \<open>checker\<close> is True.\<close>

definition usernameCheckerTick :: "env \<Rightarrow> clientId \<Rightarrow> server \<Rightarrow> server" where
  "usernameCheckerTick e cid s =
     (case clientUsernameStatus s cid of
        None \<Rightarrow> s
      | Some u \<Rightarrow>
          if checker u then
            (if hasUsername u then
               addClientLog cid ''[Username checker stopped - username received]''
                 (s\<lparr>clientUsernameStatus := (clientUsernameStatus s)(cid \<mapsto> u\<lparr>checker := False\<rparr>)\<rparr>)
             else if requestSent u then s
             else
               (case sendUsernameRequest e cid s of
                  (True, s1) \<Rightarrow>
                    addClientLog cid ''[Username request sent to client]''
                      (s1\<lparr>clientUsernameStatus := (clientUsernameStatus s1)
                            (cid \<mapsto> u\<lparr>requestSent := True\<rparr>)\<rparr>)
                | (False, s1) \<Rightarrow> s1))
          else s)"

text \<open>The functions that run inside the \<open>try\<close> block of the data handler return the
  state they leave together with the exception they threw, if any: the \<open>catch\<close> block
  goes on from that state.\<close>

definition handleUsernameResponse :: "clientId \<Rightarrow> jsval \<Rightarrow> server \<Rightarrow> js_error option \<times> server" where
  "handleUsernameResponse cid username s =
     (if \<not> truthy username then
        (None, addClientLog cid ''[Username response received but empty]'' s)
      else
        (let oldName = displayName s cid;
             s1 = s\<lparr>clientNames := (clientNames s)(cid \<mapsto> username),
                     clientUsernameStatus :=
                       (case clientUsernameStatus s cid of
                          None \<Rightarrow> clientUsernameStatus s
                        | Some u \<Rightarrow> (clientUsernameStatus s)(cid \<mapsto> u\<lparr>hasUsername := True\<rparr>))\<rparr>
         in case toStringJS username of
              Inl err \<Rightarrow> (Some err, s1)
            | Inr name \<Rightarrow>
                (let s2 = addClientLog cid (''[Username received]: '' @ name) s1
                 in if strictEq oldName username then (None, s2)
                    else
                      (let s3 = broadcastToBrowsers (UpdateTabName cid username) s2
                       in case toStringJS oldName of
                            Inl err \<Rightarrow> (Some err, s3)
                          | Inr old \<Rightarrow>
                              (None, addClientLog cid
                                 (''[Tab name updated]: '' @ old @ '' -> '' @ name) s3)))))"

subsection \<open>Messages\<close>

definition handleStatusUpdate ::
  "env \<Rightarrow> clientId \<Rightarrow> jsobj option \<Rightarrow> jsval \<Rightarrow> server \<Rightarrow> server" where
  "handleStatusUpdate e cid newStatus ts s =
     (case newStatus of
        None \<Rightarrow> addClientLog cid ''[Status update - no status data]'' s
      | Some new \<Rightarrow>
          (case getChangedFields (case clientStateCache s cid of None \<Rightarrow> [] | Some old \<Rightarrow> old) new of
             None \<Rightarrow> addClientLog cid ''[Status update - no changes detected]'' s
           | Some ch \<Rightarrow>
               (let s1 = s\<lparr>clientStateCache := (clientStateCache s)(cid \<mapsto> spread new)\<rparr>;
                    s2 = fold (\<lambda>f st. if changedField ch f = JUndefined then st
                                       else updateStatus cid f (changedField ch f) st)
                           [Loaded, Logged, ScriptRunning, LoadedScript] s1;
                    s3 = broadcastToBrowsers
                           (StatusUpdateJson cid new (chOwn ch)
                              (if truthy ts then ts else JStr (isoTime e))
                              (isoTime e)) s2
                in addClientLog cid
                     (''[Status updated - Changes: '' @ joinWith '', '' (objectKeys (chOwn ch)) @ '']'')
                     s3)))"

definition defaultState :: jsobj where
  "defaultState =
     [(''loaded'', JBool False), (''logged'', JBool False), (''scriptRunning'', JBool False),
      (''loadedScript'', JStr [])]"

definition legacyStatus :: json_message where
  "legacyStatus =
     \<lparr>msgType = JStr ''status_update'', msgTimestamp = JUndefined, msgClientName = JUndefined,
      msgStatus = None, msgMessage = None, msgUsername = JUndefined\<rparr>"

definition convertLegacyToJson :: "env \<Rightarrow> clientId \<Rightarrow> string \<Rightarrow> server \<Rightarrow> json_message" where
  "convertLegacyToJson e cid message s =
     (let currentStatus = (case clientStateCache s cid of None \<Rightarrow> defaultState | Some c \<Rightarrow> c);
          m = legacyStatus\<lparr>msgTimestamp := JStr (isoTime e)\<rparr>
      in if startsWith message ''$ClientName:'' then
           m\<lparr>msgClientName := JStr (js_trim (drop 12 message)), msgStatus := Some currentStatus\<rparr>
         else if startsWith message ''$IsLoaded:'' then
           m\<lparr>msgStatus := Some (setProperty (spread currentStatus) ''loaded''
                 (JBool (toLowerCase (js_trim (splitColon1 message)) = ''true'')))\<rparr>
         else if startsWith message ''$IsLogged:'' then
           m\<lparr>msgStatus := Some (setProperty (spread currentStatus) ''logged''
                 (JBool (toLowerCase (js_trim (splitColon1 message)) = ''true'')))\<rparr>
         else if startsWith message ''$IsScriptRunning:'' then
           m\<lparr>msgStatus := Some (setProperty (spread currentStatus) ''scriptRunning''
                 (JBool (toLowerCase (js_trim (splitColon1 message)) = ''true'')))\<rparr>
         else if startsWith message ''$LoadedScript:'' then
           m\<lparr>msgStatus := Some (setProperty (spread currentStatus) ''loadedScript''
                 (JStr (js_trim (drop 14 message))))\<rparr>
         else if message = ''$Heartbeat'' then m\<lparr>msgType := JStr ''heartbeat''\<rparr>
         else m\<lparr>msgType := JStr ''log'', msgMessage := Some message\<rparr>)"

definition processJsonMessage ::
  "env \<Rightarrow> clientId \<Rightarrow> json_message \<Rightarrow> server \<Rightarrow> js_error option \<times> server" where
  "processJsonMessage e cid m s =
     (let s1 = (if truthy (msgClientName m) \<and> \<not> strictEq (msgClientName m) (displayName s cid)
                then broadcastToBrowsers (UpdateTabName cid (msgClientName m))
                       (s\<lparr>clientNames := (clientNames s)(cid \<mapsto> msgClientName m)\<rparr>)
                else s)
      in if msgType m = JStr ''status_update'' then
           (None, handleStatusUpdate e cid (msgStatus m) (msgTimestamp m) s1)
         else if msgType m = JStr ''heartbeat'' then
           (None, s1\<lparr>clientLastHeartbeat := (clientLastHeartbeat s1)(cid \<mapsto> now e)\<rparr>)
         else if msgType m = JStr ''username_response'' then
           handleUsernameResponse cid (msgUsername m) s1
         else if msgType m = JStr ''log'' then
           (case msgMessage m of
              None \<Rightarrow> (None, s1)
            | Some msg \<Rightarrow> if msg = [] then (None, s1) else (None, addClientLog cid msg s1))
         else
           (case toStringJS (msgType m) of
              Inl err \<Rightarrow> (Some err, s1)
            | Inr t \<Rightarrow> (None, addClientLog cid (''[Unknown JSON message type]: '' @ t) s1)))"

subsection \<open>The TCP server\<close>

text \<open>The connection handler. The runtime hands it the new socket; the challenge is what
  \<open>generateChallenge\<close> draws. The display name it interpolates is the id it has just
  stored.\<close>

definition onConnection :: "env \<Rightarrow> nat \<Rightarrow> string \<Rightarrow> server \<Rightarrow> js_error + server" where
  "onConnection e sid chal s =
     (let cid = getClientId (sockets s sid);
          s1 = s\<lparr>tcpClients := AList.update cid sid (tcpClients s),
                  clientNames := (clientNames s)(cid \<mapsto> JStr cid),
                  clientStatus := (clientStatus s)(cid \<mapsto> defaultStatus),
                  clientLastHeartbeat := (clientLastHeartbeat s)(cid \<mapsto> now e)\<rparr>;
          s2 = addClientLog cid (''[Client '' @ cid @ '' connected - awaiting handshake]'') s1
      in andThen (addMasterLog e (''Client connected: '' @ cid @ '' - initiating handshake'') (Some cid) s2)
           (\<lambda>s3. startHandshake e sid cid chal (broadcastToBrowsers (ClientConnect cid (JStr cid)) s3)))"

text \<open>An exception that leaves the \<open>catch\<close> block, or a callback, is caught nowhere.\<close>

fun uncaught :: "js_error option \<times> server \<Rightarrow> js_error + server" where
  "uncaught (None, s) = Inr s"
| "uncaught (Some err, s) = Inl err"

text \<open>The body of \<open>lines.forEach\<close> in the \<open>data\<close> handler, for one trimmed non-empty
  line. \<open>parse\<close> stands for \<open>JSON.parse\<close> followed by the destructuring that opens
  \<open>processJsonMessage\<close>: None when either throws (the line is not JSON, or it is the JSON
  text \<open>null\<close>). The \<open>catch\<close> branch runs then, and also when \<open>processJsonMessage\<close>
  throws later, on the state it has reached. An exception of
  \<open>processHandshakeResponse\<close> is caught nowhere: it leaves the handler.\<close>

definition onDataLine ::
  "(string \<Rightarrow> json_message option) \<Rightarrow> env \<Rightarrow> nat \<Rightarrow> string \<Rightarrow> server \<Rightarrow> js_error + server" where
  "onDataLine parse e sid msg s =
     (let cid = getClientId (sockets s sid)
      in if startsWith msg ''$HandshakeResponse:'' then
           (case processHandshakeResponse e sid cid (js_trim (drop 19 msg)) s of
              Inl err \<Rightarrow> Inl err
            | Inr (ok, s1) \<Rightarrow> Inr s1)
         else if isClientAuthenticated cid s then
           (case parse msg of
              Some jsonData \<Rightarrow>
                (case processJsonMessage e cid jsonData s of
                   (None, s1) \<Rightarrow> Inr s1
                 | (Some err, s1) \<Rightarrow>
                     uncaught (processJsonMessage e cid (convertLegacyToJson e cid msg s1) s1))
            | None \<Rightarrow> uncaught (processJsonMessage e cid (convertLegacyToJson e cid msg s) s))
         else Inr (addClientLog cid (''[Unauthenticated message rejected]: '' @ msg) s))"

fun onData ::
  "(string \<Rightarrow> json_message option) \<Rightarrow> env \<Rightarrow> nat \<Rightarrow> string list \<Rightarrow> server \<Rightarrow> js_error + server" where
  "onData parse e sid [] s = Inr s"
| "onData parse e sid (msg # msgs) s =
     (case onDataLine parse e sid msg s of
        Inl err \<Rightarrow> Inl err
      | Inr s1 \<Rightarrow> onData parse e sid msgs s1)"

definition onClose :: "env \<Rightarrow> nat \<Rightarrow> server \<Rightarrow> js_error + server" where
  "onClose e sid s =
     (let cid = getClientId (sockets s sid)
      in case toStringJS (displayName s cid) of
           Inl err \<Rightarrow> Inl err
         | Inr name \<Rightarrow>
             andThen
               (addMasterLog e (''Client disconnected: '' @ cid) (Some cid)
                  (addClientLog cid (''[Client '' @ name @ '' disconnected]'') s))
               (\<lambda>s2. Inr (cleanupClient cid (broadcastToBrowsers (ClientDisconnect cid) s2))))"

definition onError :: "nat \<Rightarrow> string \<Rightarrow> server \<Rightarrow> js_error + server" where
  "onError sid err s =
     (let cid = getClientId (sockets s sid)
      in case toStringJS (displayName s cid) of
           Inl ex \<Rightarrow> Inl ex
         | Inr name \<Rightarrow> Inr (addClientLog cid (''[Client '' @ name @ '' error] '' @ err) s))"

subsection \<open>The two sweeps\<close>

text \<open>The heartbeat monitor walks the ids that \<open>tcpClients\<close> had when the tick began.\<close>

fun heartbeatSweep :: "env \<Rightarrow> clientId list \<Rightarrow> server \<Rightarrow> js_error + server" where
  "heartbeatSweep e [] s = Inr s"
| "heartbeatSweep e (cid # cids) s =
     (if isClientAuthenticated cid s
         \<and> now e - (case clientLastHeartbeat s cid of None \<Rightarrow> 0 | Some t \<Rightarrow> t) > 30000
      then
        (case addMasterLog e (''Client timeout: '' @ cid) (Some cid) s of
           Inl err \<Rightarrow> Inl err
         | Inr s1 \<Rightarrow>
             heartbeatSweep e cids
               (broadcastToBrowsers (ClientDisconnect cid)
                  (cleanupClient cid
                     ((case map_of (tcpClients s1) cid of
                         None \<Rightarrow> (\<lambda>x. x)
                       | Some sid \<Rightarrow> socketDestroy sid) s1))))
      else heartbeatSweep e cids s)"

definition heartbeatMonitor :: "env \<Rightarrow> server \<Rightarrow> js_error + server" where
  "heartbeatMonitor e s = heartbeatSweep e (map fst (tcpClients s)) s"

definition handshakeCleanup :: "env \<Rightarrow> server \<Rightarrow> server" where
  "handshakeCleanup e s =
     fold (\<lambda>cid st.
             case map_of (pendingHandshakes st) cid of
               None \<Rightarrow> st
             | Some h \<Rightarrow>
                 if authenticated h then st
                 else if now e - timestamp h > HANDSHAKE_TIMEOUT then
                   broadcastToBrowsers (ClientDisconnect cid)
                     (cleanupClient cid
                        ((case map_of (tcpClients st) cid of
                            None \<Rightarrow> (\<lambda>x. x)
                          | Some sid \<Rightarrow> socketDestroy sid) st))
                 else st)
       (map fst (pendingHandshakes s)) s"

subsection \<open>The event loop\<close>

text \<open>What the runtime can call: a new connection (with the socket's end point and the
  challenge drawn), data, close or error on a socket, the handshake timer of a connection,
  a tick of one of the two sweeps, a tick of a client's username interval. A socket that
  was destroyed emits \<open>close\<close> afterwards, once. The server installs no handler for
  uncaught exceptions: an exception that leaves a callback ends the run.\<close>

datatype input =
    Connect nat string string string
  | Data nat "string list"
  | Close nat
  | SocketError nat string
  | HandshakeTimer nat
  | HeartbeatTick
  | HandshakeSweepTick
  | UsernameTick clientId

definition step ::
  "(string \<Rightarrow> json_message option) \<Rightarrow> env \<Rightarrow> input \<Rightarrow> server \<Rightarrow> js_error + server" where
  "step parse e i s =
     (case i of
        Connect sid addr port chal \<Rightarrow>
          onConnection e sid chal
            (s\<lparr>sockets := (sockets s)
                  (sid := \<lparr>remoteAddress = addr, remotePort = port, written = [],
                           destroyed = False\<rparr>)\<rparr>)
      | Data sid msgs \<Rightarrow> onData parse e sid msgs s
      | Close sid \<Rightarrow> onClose e sid s
      | SocketError sid err \<Rightarrow> onError sid err s
      | HandshakeTimer sid \<Rightarrow> handshakeTimeout e sid (getClientId (sockets s sid)) s
      | HeartbeatTick \<Rightarrow> heartbeatMonitor e s
      | HandshakeSweepTick \<Rightarrow> Inr (handshakeCleanup e s)
      | UsernameTick cid \<Rightarrow> Inr (usernameCheckerTick e cid s))"

fun run ::
  "(string \<Rightarrow> json_message option) \<Rightarrow> (env \<times> input) list \<Rightarrow> server \<Rightarrow> js_error + server" where
  "run parse [] s = Inr s"
| "run parse ((e, i) # rest) s =
     (case step parse e i s of
        Inl err \<Rightarrow> Inl err
      | Inr s1 \<Rightarrow> run parse rest s1)"

definition initialServer :: "string \<Rightarrow> server" where
  "initialServer secret =
     \<lparr>tcpClients = [], clientLogs = Map.empty, clientNames = Map.empty,
      clientStatus = Map.empty, clientLastHeartbeat = Map.empty, masterLog = [],
      pendingHandshakes = [], clientStateCache = Map.empty, clientUsernameStatus = Map.empty,
      HANDSHAKE_SECRET = secret,
      sockets = (\<lambda>sid. \<lparr>remoteAddress = [], remotePort = [], written = [], destroyed = False\<rparr>),
      published = []\<rparr>"

subsection \<open>Notions used in the statements\<close>

text \<open>The log ring of a client: \<open>clientLogs[id] || []\<close>.\<close>

definition clientRing :: "server \<Rightarrow> clientId \<Rightarrow> string list" where
  "clientRing s cid = (case clientLogs s cid of None \<Rightarrow> [] | Some ring \<Rightarrow> ring)"

text \<open>One bit of a response flipped: bit \<open>j\<close> of the code unit at index \<open>i\<close> of a
  string, or bit \<open>j\<close> of the byte at index \<open>i\<close> of a byte sequence.\<close>

definition flipCharBit :: "nat \<Rightarrow> nat \<Rightarrow> string \<Rightarrow> string" where
  "flipCharBit i j s = s[i := char_of ((of_char (s ! i) :: nat) XOR 2 ^ j)]"

definition flipByteBit :: "nat \<Rightarrow> nat \<Rightarrow> byte list \<Rightarrow> byte list" where
  "flipByteBit i j bs = bs[i := (bs ! i) XOR 2 ^ j]"

text \<open>Example states for the concrete runs below. The client at 10.0.0.5, port 4242, with
  socket number 0: \<open>awaitingServer\<close> is the state while its handshake (issued at time 0)
  is pending, \<open>authenticatedServer\<close> the state once the handshake has succeeded and the
  username checker runs. The logs written on the way are left out of both.\<close>

definition exampleId :: clientId where
  "exampleId = ''10.0.0.5:4242''"

definition awaitingServer :: server where
  "awaitingServer =
     (initialServer ''secret'')
       \<lparr>tcpClients := [(exampleId, 0)],
        clientNames := [exampleId \<mapsto> JStr exampleId],
        clientStatus := [exampleId \<mapsto> defaultStatus],
        clientLastHeartbeat := [exampleId \<mapsto> 0],
        pendingHandshakes := [(exampleId, \<lparr>challenge = ''c0ffee'', timestamp = 0, authenticated = False\<rparr>)],
        sockets := (sockets (initialServer ''secret''))
          (0 := \<lparr>remoteAddress = ''10.0.0.5'', remotePort = ''4242'', written = [], destroyed = False\<rparr>)\<rparr>"

definition authenticatedServer :: server where
  "authenticatedServer =
     awaitingServer
       \<lparr>pendingHandshakes := [(exampleId, \<lparr>challenge = ''c0ffee'', timestamp = 0, authenticated = True\<rparr>)],
        clientUsernameStatus := [exampleId \<mapsto> \<lparr>hasUsername = False, requestSent = False, checker = True\<rparr>]\<rparr>"

definition at :: "int \<Rightarrow> env" where
  "at t = \<lparr>now = t, isoTime = ''2026-01-01T00:00:00.000Z'', localTime = ''00:00:00''\<rparr>"

text \<open>What an eviction leaves of a client: the socket destroyed, no entry for the id in
  any of the per-client maps but the log rings, and \<open>client_disconnect\<close> the last event
  published. (The log ring is deleted as well, but stopping a username checker that was
  running writes a line into a fresh ring afterwards.)\<close>

definition checkerRunning :: "server \<Rightarrow> clientId \<Rightarrow> bool" where
  "checkerRunning s cid = (case clientUsernameStatus s cid of None \<Rightarrow> False | Some u \<Rightarrow> checker u)"

definition evicted :: "nat \<Rightarrow> clientId \<Rightarrow> server \<Rightarrow> bool" where
  "evicted sid cid s =
     (destroyed (sockets s sid)
      \<and> map_of (tcpClients s) cid = None
      \<and> map_of (pendingHandshakes s) cid = None
      \<and> clientNames s cid = None
      \<and> clientStatus s cid = None
      \<and> clientLastHeartbeat s cid = None
      \<and> clientStateCache s cid = None
      \<and> clientUsernameStatus s cid = None
      \<and> published s \<noteq> []
      \<and> last (published s) = ClientDisconnect cid)"

text \<open>The cached state that \<open>handleStatusUpdate\<close> diffs against,
  \<open>clientStateCache[clientId] || {}\<close>; the keys on which two state objects differ, in
  the order \<open>getChangedFields\<close> visits them; and the \<open>status_update_json\<close> events
  among the published ones.\<close>

definition cachedState :: "server \<Rightarrow> clientId \<Rightarrow> jsobj" where
  "cachedState s cid = (case clientStateCache s cid of None \<Rightarrow> [] | Some old \<Rightarrow> old)"


fun isStatusUpdateJson :: "event \<Rightarrow> bool" where
  "isStatusUpdateJson (StatusUpdateJson cid status changes ts serverTime) = True"
| "isStatusUpdateJson ev = False"

definition statusBroadcasts :: "server \<Rightarrow> event list" where
  "statusBroadcasts s = filter isStatusUpdateJson (published s)"

text \<open>A native \<open>status_update\<close> message that carries the status object \<open>st\<close> and
  nothing else, and two status objects for the concrete runs.\<close>

definition statusUpdate :: "jsobj \<Rightarrow> json_message" where
  "statusUpdate st =
     \<lparr>msgType = JStr ''status_update'', msgTimestamp = JUndefined, msgClientName = JUndefined,
      msgStatus = Some st, msgMessage = None, msgUsername = JUndefined\<rparr>"

definition loadedOnly :: jsobj where
  "loadedOnly = [(''loaded'', JBool True)]"


text \<open>The first statement of \<open>processJsonMessage\<close>: a truthy \<open>clientName\<close> that is not
  strictly equal to the stored display name replaces it and is announced. A name that is a
  string, a number or a boolean is announced once; an array or an object is a fresh value
  in every message and is announced with each of them.\<close>

definition updateClientName :: "clientId \<Rightarrow> jsval \<Rightarrow> server \<Rightarrow> server" where
  "updateClientName cid clientName s =
     (if truthy clientName \<and> \<not> strictEq clientName (displayName s cid) then
        broadcastToBrowsers (UpdateTabName cid clientName)
          (s\<lparr>clientNames := (clientNames s)(cid \<mapsto> clientName)\<rparr>)
      else s)"

text \<open>For the username checker: a \<open>username_response\<close> whose username is missing or
  falsy, and one that carries the username \<open>name\<close> and nothing else; the events of a
  client's polling while no username has arrived, a tick of its interval or data on its
  socket whose lines each parse to an empty \<open>username_response\<close>; and the
  \<open>update_tab_name\<close> events among the published ones.\<close>

definition isEmptyUsernameResponse :: "json_message \<Rightarrow> bool" where
  "isEmptyUsernameResponse m =
     (msgType m = JStr ''username_response'' \<and> \<not> truthy (msgUsername m))"

definition usernameResponse :: "jsval \<Rightarrow> json_message" where
  "usernameResponse name =
     \<lparr>msgType = JStr ''username_response'', msgTimestamp = JUndefined, msgClientName = JUndefined,
      msgStatus = None, msgMessage = None, msgUsername = name\<rparr>"

definition emptyResponseLine :: "(string \<Rightarrow> json_message option) \<Rightarrow> string \<Rightarrow> bool" where
  "emptyResponseLine parse msg =
     (\<not> startsWith msg ''$HandshakeResponse:''
      \<and> (case parse msg of None \<Rightarrow> False | Some m \<Rightarrow> isEmptyUsernameResponse m))"

fun pollingEvent ::
  "(string \<Rightarrow> json_message option) \<Rightarrow> nat \<Rightarrow> clientId \<Rightarrow> env \<times> input \<Rightarrow> bool" where
  "pollingEvent parse sid cid (e, UsernameTick c) = (c = cid)"
| "pollingEvent parse sid cid (e, Data sd msgs) = (sd = sid \<and> list_all (emptyResponseLine parse) msgs)"
| "pollingEvent parse sid cid (e, i) = False"

fun isUpdateTabName :: "event \<Rightarrow> bool" where
  "isUpdateTabName (UpdateTabName cid name) = True"
| "isUpdateTabName ev = False"

text \<open>Three lines a client may send, and a parser that knows them: a
  \<open>username_response\<close> without a username, one with the empty username, and one with
  the username Alice.\<close>

definition responseLine :: "string \<Rightarrow> string" where
  "responseLine rest =
     ''{'' @ [CHR 0x22] @ ''type'' @ [CHR 0x22] @ '':'' @ [CHR 0x22] @ ''username_response'' @ [CHR 0x22]
       @ rest @ ''}''"

definition usernameField :: "string \<Rightarrow> string" where
  "usernameField name =
     '','' @ [CHR 0x22] @ ''username'' @ [CHR 0x22] @ '':'' @ [CHR 0x22] @ name @ [CHR 0x22]"

definition exampleParse :: "string \<Rightarrow> json_message option" where
  "exampleParse line =
     (if line = responseLine [] then Some (usernameResponse JUndefined)
      else if line = responseLine (usernameField []) then Some (usernameResponse (JStr []))
      else if line = responseLine (usernameField ''Alice'') then Some (usernameResponse (JStr ''Alice''))
      else None)"

text \<open>A \<open>heartbeat\<close> message that carries a \<open>clientName\<close>, and the state of the
  example client once it has asked for its username and waits for the answer.\<close>

definition heartbeatFrom :: "jsval \<Rightarrow> json_message" where
  "heartbeatFrom name =
     \<lparr>msgType = JStr ''heartbeat'', msgTimestamp = JUndefined, msgClientName = name,
      msgStatus = None, msgMessage = None, msgUsername = JUndefined\<rparr>"

definition waitingServer :: server where
  "waitingServer =
     authenticatedServer
       \<lparr>clientUsernameStatus := [exampleId \<mapsto> \<lparr>hasUsername = False, requestSent = True, checker = True\<rparr>]\<rparr>"

fun isClientDisconnect :: "event \<Rightarrow> bool" where
  "isClientDisconnect (ClientDisconnect cid) = True"
| "isClientDisconnect ev = False"


section \<open>Properties\<close>

subsection \<open>Log rings\<close>

lemma pushLog_drop:
  assumes "length ring \<le> MAX_LOGS"
  shows "pushLog ring msg = drop (length ring + 1 - MAX_LOGS) (ring @ [msg])"
proof (cases "length ring = MAX_LOGS")
  case True
  then have k: "length ring + 1 - MAX_LOGS = Suc 0" by simp
  have "pushLog ring msg = tl (ring @ [msg])"
    using True by (simp add: pushLog_def)
  also have "\<dots> = drop (Suc 0) (ring @ [msg])"
    by (simp only: drop_Suc drop_0)
  finally show ?thesis
    by (simp only: k)
next
  case False
  with assms have "length ring + 1 - MAX_LOGS = 0" by simp
  with False assms show ?thesis by (simp add: pushLog_def)
qed

lemma pushLog_length: "length ring \<le> MAX_LOGS \<Longrightarrow> length (pushLog ring msg) \<le> MAX_LOGS"
  by (auto simp: pushLog_def MAX_LOGS_def)

lemma clientRing_addClientLog:
  "clientRing (addClientLog cid msg s) cid' = (if cid' = cid then pushLog (clientRing s cid) msg else clientRing s cid')"
  by (simp add: clientRing_def addClientLog_def broadcastToBrowsers_def)

lemma drop_pushLog_append:
  assumes "length ring \<le> MAX_LOGS"
  shows "drop (length (pushLog ring m) + n - MAX_LOGS) (pushLog ring m @ msgs)
       = drop (length ring + Suc n - MAX_LOGS) (ring @ m # msgs)"
proof -
  let ?k = "length ring + 1 - MAX_LOGS"
  have p: "pushLog ring m = drop ?k (ring @ [m])"
    using assms by (rule pushLog_drop)
  have k: "?k \<le> length (ring @ [m])" by simp
  have "pushLog ring m @ msgs = drop ?k ((ring @ [m]) @ msgs)"
    unfolding p using k by (simp add: drop_append MAX_LOGS_def)
  moreover have "length (pushLog ring m) + n - MAX_LOGS + ?k = length ring + Suc n - MAX_LOGS"
    unfolding p using assms by (simp add: MAX_LOGS_def)
  ultimately show ?thesis
    by (simp add: drop_drop del: drop_append)
qed

lemma fold_addClientLog:
  "length (clientRing s cid) \<le> MAX_LOGS \<Longrightarrow>
   clientRing (fold (addClientLog cid) msgs s) cid
     = drop (length (clientRing s cid) + length msgs - MAX_LOGS) (clientRing s cid @ msgs)"
proof (induction msgs arbitrary: s)
  case Nil
  then show ?case by simp
next
  case (Cons m msgs)
  have "length (clientRing (addClientLog cid m s) cid) \<le> MAX_LOGS"
    using Cons.prems by (simp add: clientRing_addClientLog pushLog_length)
  from Cons.IH [OF this]
  have "clientRing (fold (addClientLog cid) (m # msgs) s) cid
      = drop (length (pushLog (clientRing s cid) m) + length msgs - MAX_LOGS)
          (pushLog (clientRing s cid) m @ msgs)"
    by (simp add: clientRing_addClientLog del: drop_append)
  also have "\<dots> = drop (length (clientRing s cid) + Suc (length msgs) - MAX_LOGS)
          (clientRing s cid @ m # msgs)"
    using Cons.prems by (rule drop_pushLog_append)
  finally show ?case by simp
qed

text \<open>
  Claim C8. The per-client log rings and the master log hold at most 1000 entries after
  every append: an append to a ring of at most \<open>MAX_LOGS\<close> entries leaves the last 1000
  entries of the ring followed by the new line, so a full ring loses its oldest entry and
  keeps the newest. \<open>addMasterLog\<close> appends whenever it can build the text of its entry,
  and throws what building the text throws otherwise. Appending 1001 lines to a client
  with an empty ring leaves exactly 1000, the first line evicted.
\<close>

theorem log_rings_bounded:
  assumes "length (clientRing s cid) \<le> MAX_LOGS" and "length (masterLog s) \<le> MAX_LOGS"
  shows "length (clientRing (addClientLog cid msg s) cid) \<le> 1000
       \<and> clientRing (addClientLog cid msg s) cid
           = drop (length (clientRing s cid) + 1 - 1000) (clientRing s cid @ [msg])
       \<and> (case masterLogText m c s of
            Inl err \<Rightarrow> addMasterLog e m c s = Inl err
          | Inr entry \<Rightarrow>
              (\<exists>s'. addMasterLog e m c s = Inr s'
                 \<and> length (masterLog s') \<le> 1000
                 \<and> masterLog s'
                     = drop (length (masterLog s) + 1 - 1000)
                         (masterLog s @ [''['' @ localTime e @ ''] '' @ entry])))
       \<and> (clientRing s cid = [] \<and> length msgs = 1001 \<longrightarrow>
            clientRing (fold (addClientLog cid) msgs s) cid = tl msgs
            \<and> length (clientRing (fold (addClientLog cid) msgs s) cid) = 1000)"
proof -
  have a: "length (pushLog (clientRing s cid) msg) \<le> 1000"
    using assms(1) pushLog_length [of "clientRing s cid" msg] by (simp add: MAX_LOGS_def)
  have b: "pushLog (clientRing s cid) msg
      = drop (length (clientRing s cid) + 1 - 1000) (clientRing s cid @ [msg])"
    using pushLog_drop [OF assms(1), of msg] by (simp only: MAX_LOGS_def)
  have c: "length (pushLog (masterLog s) x) \<le> 1000" for x
    using assms(2) pushLog_length [of "masterLog s" x] by (simp add: MAX_LOGS_def)
  have d: "pushLog (masterLog s) x = drop (length (masterLog s) + 1 - 1000) (masterLog s @ [x])" for x
    using pushLog_drop [OF assms(2), of x] by (simp only: MAX_LOGS_def)
  have f: "clientRing (fold (addClientLog cid) msgs s) cid = tl msgs
         \<and> length (clientRing (fold (addClientLog cid) msgs s) cid) = 1000"
    if "clientRing s cid = []" "length msgs = 1001"
    using fold_addClientLog [OF assms(1), of msgs] that
    by (simp add: MAX_LOGS_def drop_Suc)
  show ?thesis
    using a b c d f
    by (simp add: clientRing_addClientLog addMasterLog_def broadcastToBrowsers_def
        split: sum.splits del: drop_append)
qed

theorem log_rings_bounded_witness:
  "length (clientRing (initialServer ''k'') ''c'') \<le> MAX_LOGS
   \<and> length (masterLog (initialServer ''k'')) \<le> MAX_LOGS
   \<and> clientRing (addClientLog ''c'' ''hello'' (initialServer ''k'')) ''c'' = [''hello'']
   \<and> (\<exists>s'. addMasterLog \<lparr>now = 0, isoTime = ''t'', localTime = ''12:00:00''\<rparr> ''note'' None
            (initialServer ''k'') = Inr s'
          \<and> masterLog s' = [''[12:00:00] note''])
   \<and> clientRing (fold (addClientLog ''c'') (''first'' # replicate 1000 ''line'') (initialServer ''k'')) ''c''
       = replicate 1000 ''line''"
proof -
  let ?s = "initialServer ''k''"
  let ?e = "\<lparr>now = 0, isoTime = ''t'', localTime = ''12:00:00''\<rparr>"
  have r0: "clientRing ?s ''c'' = []"
    by (simp add: clientRing_def initialServer_def)
  have m0: "masterLog ?s = []"
    by (simp add: initialServer_def)
  have t0: "masterLogText ''note'' None ?s = Inr ''note''"
    by (simp add: masterLogText_def)
  have h1: "length (clientRing ?s ''c'') \<le> MAX_LOGS"
    by (simp add: r0)
  have h2: "length (masterLog ?s) \<le> MAX_LOGS"
    by (simp add: m0)
  note t = log_rings_bounded [where s = ?s and cid = "''c''" and msg = "''hello''"
      and m = "''note''" and c = None and e = ?e
      and msgs = "''first'' # replicate 1000 ''line''", OF h1 h2]
  from t have c3: "clientRing (addClientLog ''c'' ''hello'' ?s) ''c'' = [''hello'']"
    by (simp add: r0)
  from t have c4: "\<exists>s'. addMasterLog ?e ''note'' None ?s = Inr s' \<and> masterLog s' = [''[12:00:00] note'']"
    by (simp add: t0 m0) blast
  from t have c5: "clientRing (fold (addClientLog ''c'') (''first'' # replicate 1000 ''line'') ?s) ''c''
      = replicate 1000 ''line''"
    by (simp add: r0)
  from h1 h2 c3 c4 c5 show ?thesis
    by (intro conjI)
qed

subsection \<open>The data handler before and after the handshake\<close>

lemma cleanupClient_fields:
  "map_of (pendingHandshakes (cleanupClient cid s)) cid = None"
  "map_of (tcpClients (cleanupClient cid s)) cid = None"
  "clientStateCache (cleanupClient cid s) cid = None"
  "clientStatus (cleanupClient cid s) cid = None"
  "clientNames (cleanupClient cid s) cid = None"
  "clientLastHeartbeat (cleanupClient cid s) cid = None"
  "clientUsernameStatus (cleanupClient cid s) cid = None"
  "sockets (cleanupClient cid s) = sockets s"
  "masterLog (cleanupClient cid s) = masterLog s"
  by (auto simp: cleanupClient_def stopUsernameChecker_def addClientLog_def broadcastToBrowsers_def
      Let_def delete_notin_dom map_of_eq_None_iff split: option.splits)

lemma cleanupClient_published:
  "published (cleanupClient cid s) =
     published s @ (case clientUsernameStatus s cid of
                      None \<Rightarrow> []
                    | Some u \<Rightarrow> if checker u then [LogEvent cid ''[Username checker stopped]''] else [])"
  by (auto simp: cleanupClient_def stopUsernameChecker_def addClientLog_def broadcastToBrowsers_def
      Let_def split: option.splits)

lemma isClientAuthenticated_cleanup: "\<not> isClientAuthenticated cid (cleanupClient cid s)"
  by (simp add: isClientAuthenticated_def cleanupClient_fields)

lemma example_ids [simp]:
  "getClientId (sockets awaitingServer 0) = exampleId"
  "getClientId (sockets authenticatedServer 0) = exampleId"
  by (simp_all add: awaitingServer_def authenticatedServer_def getClientId_def exampleId_def)

text \<open>
  Claim C4. A line received while the client is not authenticated, and that does not
  start with \<open>$HandshakeResponse:\<close>, is dropped: whatever the parser would make of it,
  the handler only appends the rejection to the client's log ring (and publishes that log
  line). The state cache, the status, the name and the last heartbeat of every client stay
  as they were.
\<close>

theorem unauthenticated_line_rejected:
  assumes "\<not> isClientAuthenticated (getClientId (sockets s sid)) s"
    and "\<not> startsWith msg ''$HandshakeResponse:''"
  shows "onDataLine parse e sid msg s
           = Inr (addClientLog (getClientId (sockets s sid)) (''[Unauthenticated message rejected]: '' @ msg) s)
       \<and> clientStateCache (addClientLog (getClientId (sockets s sid)) (''[Unauthenticated message rejected]: '' @ msg) s)
           = clientStateCache s
       \<and> clientStatus (addClientLog (getClientId (sockets s sid)) (''[Unauthenticated message rejected]: '' @ msg) s)
           = clientStatus s
       \<and> clientNames (addClientLog (getClientId (sockets s sid)) (''[Unauthenticated message rejected]: '' @ msg) s)
           = clientNames s
       \<and> clientLastHeartbeat (addClientLog (getClientId (sockets s sid)) (''[Unauthenticated message rejected]: '' @ msg) s)
           = clientLastHeartbeat s
       \<and> clientRing (addClientLog (getClientId (sockets s sid)) (''[Unauthenticated message rejected]: '' @ msg) s)
             (getClientId (sockets s sid))
           = pushLog (clientRing s (getClientId (sockets s sid))) (''[Unauthenticated message rejected]: '' @ msg)
       \<and> published (addClientLog (getClientId (sockets s sid)) (''[Unauthenticated message rejected]: '' @ msg) s)
           = published s @ [LogEvent (getClientId (sockets s sid)) (''[Unauthenticated message rejected]: '' @ msg)]"
  using assms
  by (simp add: onDataLine_def addClientLog_def broadcastToBrowsers_def clientRing_def Let_def)

theorem unauthenticated_line_rejected_witness:
  "\<not> isClientAuthenticated (getClientId (sockets awaitingServer 0)) awaitingServer
   \<and> \<not> startsWith ''$IsLoaded:true'' ''$HandshakeResponse:''
   \<and> onDataLine (\<lambda>l. Some legacyStatus) (at 5000) 0 ''$IsLoaded:true'' awaitingServer
       = Inr (addClientLog exampleId ''[Unauthenticated message rejected]: $IsLoaded:true'' awaitingServer)
   \<and> clientRing (addClientLog exampleId ''[Unauthenticated message rejected]: $IsLoaded:true'' awaitingServer)
         exampleId
       = [''[Unauthenticated message rejected]: $IsLoaded:true'']"
  using unauthenticated_line_rejected [of awaitingServer 0 "''$IsLoaded:true''" "\<lambda>l. Some legacyStatus" "at 5000"]
  by (simp add: isClientAuthenticated_def startsWith_def awaitingServer_def initialServer_def
      clientRing_def pushLog_def MAX_LOGS_def getClientId_def exampleId_def)

text \<open>The master log: an entry is appended when its text can be built, and the text can be
  built when the display name of the client converts to a string.\<close>

lemma masterLogText_printable:
  "toStringJS (displayName s cid) = Inr name \<Longrightarrow>
   masterLogText m (Some cid) s
     = Inr (if cid \<noteq> [] \<and> truthy (displayName s cid) then js_replace m cid name else m)"
  by (simp add: masterLogText_def)

lemma addMasterLog_appends:
  "masterLogText m c s = Inr entry \<Longrightarrow>
   addMasterLog e m c s
     = Inr (broadcastToBrowsers (MasterLogEvent (''['' @ localTime e @ ''] '' @ entry))
              (s\<lparr>masterLog := pushLog (masterLog s) (''['' @ localTime e @ ''] '' @ entry)\<rparr>))"
  by (simp add: addMasterLog_def)

lemma addMasterLog_throws:
  "masterLogText m c s = Inl err \<Longrightarrow> addMasterLog e m c s = Inl err"
  by (simp add: addMasterLog_def)

lemma unprintable_truthy: "toStringJS v = Inl err \<Longrightarrow> truthy v"
  by (cases v) simp_all

lemma masterLogText_unprintable:
  "toStringJS (displayName s cid) = Inl err \<Longrightarrow> cid \<noteq> [] \<Longrightarrow>
   masterLogText m (Some cid) s = Inl err"
  by (simp add: masterLogText_def unprintable_truthy)

lemma masterLogText_frame:
  assumes "clientNames s' = clientNames s"
  shows "masterLogText m c s' = masterLogText m c s"
proof -
  have "displayName s' = displayName s"
    using assms by (simp add: displayName_def fun_eq_iff)
  then show ?thesis
    by (cases c) (simp_all add: masterLogText_def)
qed

lemma getClientId_nonempty: "getClientId sock \<noteq> []"
  by (simp add: getClientId_def)

lemma cleanupClient_logs:
  "clientLogs (cleanupClient cid s) cid
     = (if checkerRunning s cid then Some [''[Username checker stopped]''] else None)"
  by (auto simp: cleanupClient_def stopUsernameChecker_def addClientLog_def broadcastToBrowsers_def
      checkerRunning_def pushLog_def MAX_LOGS_def Let_def split: option.splits)

text \<open>The three statements that end every eviction: \<open>socket.destroy()\<close>,
  \<open>cleanupClient(id)\<close> and the broadcast of \<open>client_disconnect\<close>.\<close>

lemma eviction:
  "evicted sid cid
     (broadcastToBrowsers (ClientDisconnect cid) (cleanupClient cid (socketDestroy sid s)))"
  "clientLogs (broadcastToBrowsers (ClientDisconnect cid) (cleanupClient cid (socketDestroy sid s))) cid
     = (if checkerRunning s cid then Some [''[Username checker stopped]''] else None)"
  "masterLog (broadcastToBrowsers (ClientDisconnect cid) (cleanupClient cid (socketDestroy sid s)))
     = masterLog s"
  "published (broadcastToBrowsers (ClientDisconnect cid) (cleanupClient cid (socketDestroy sid s)))
     = published s
         @ (if checkerRunning s cid then [LogEvent cid ''[Username checker stopped]''] else [])
         @ [ClientDisconnect cid]"
proof -
  have d: "destroyed (sockets (socketDestroy sid s) sid)"
    by (simp add: socketDestroy_def)
  have u: "clientUsernameStatus (socketDestroy sid s) = clientUsernameStatus s"
    "published (socketDestroy sid s) = published s" "masterLog (socketDestroy sid s) = masterLog s"
    by (simp_all add: socketDestroy_def)
  have c: "checkerRunning (socketDestroy sid s) cid = checkerRunning s cid"
    by (simp add: checkerRunning_def u)
  show "evicted sid cid
     (broadcastToBrowsers (ClientDisconnect cid) (cleanupClient cid (socketDestroy sid s)))"
    using d by (simp add: evicted_def broadcastToBrowsers_def cleanupClient_fields)
  show "clientLogs (broadcastToBrowsers (ClientDisconnect cid) (cleanupClient cid (socketDestroy sid s))) cid
     = (if checkerRunning s cid then Some [''[Username checker stopped]''] else None)"
    by (simp add: broadcastToBrowsers_def cleanupClient_logs c)
  show "masterLog (broadcastToBrowsers (ClientDisconnect cid) (cleanupClient cid (socketDestroy sid s)))
     = masterLog s"
    by (simp add: broadcastToBrowsers_def cleanupClient_fields u)
  show "published (broadcastToBrowsers (ClientDisconnect cid) (cleanupClient cid (socketDestroy sid s)))
     = published s
         @ (if checkerRunning s cid then [LogEvent cid ''[Username checker stopped]''] else [])
         @ [ClientDisconnect cid]"
    by (simp add: broadcastToBrowsers_def cleanupClient_published u checkerRunning_def
        split: option.splits)
qed

lemma logged_frame:
  "checkerRunning (broadcastToBrowsers ev (s\<lparr>masterLog := l\<rparr>)) cid = checkerRunning s cid"
  "published (broadcastToBrowsers ev (s\<lparr>masterLog := l\<rparr>)) = published s @ [ev]"
  "masterLog (broadcastToBrowsers ev (s\<lparr>masterLog := l\<rparr>)) = l"
  by (simp_all add: broadcastToBrowsers_def checkerRunning_def)

text \<open>A handshake response that arrives too late, or that verifies to false, evicts the
  client, whether or not it had authenticated before.\<close>

lemma rejected_response_evicts:
  assumes "masterLogText m (Some cid) s = Inr entry"
  shows "\<exists>s'. andThen (addMasterLog e m (Some cid) s)
                 (\<lambda>s1. Inr (False, broadcastToBrowsers (ClientDisconnect cid)
                                      (cleanupClient cid (socketDestroy sid s1))))
               = Inr (False, s')
           \<and> evicted sid cid s'
           \<and> clientLogs s' cid
               = (if checkerRunning s cid then Some [''[Username checker stopped]''] else None)
           \<and> masterLog s' = pushLog (masterLog s) (''['' @ localTime e @ ''] '' @ entry)
           \<and> published s'
               = published s @ [MasterLogEvent (''['' @ localTime e @ ''] '' @ entry)]
                   @ (if checkerRunning s cid then [LogEvent cid ''[Username checker stopped]''] else [])
                   @ [ClientDisconnect cid]"
  by (simp add: addMasterLog_appends [OF assms] eviction logged_frame)

text \<open>A response that verifies, from a client that is authenticated already.\<close>

lemma accepted_response_again:
  assumes "map_of (pendingHandshakes s) cid = Some h" and "authenticated h"
    and "masterLogText m (Some cid) s = Inr entry"
  shows "\<exists>s'. andThen
                 (addMasterLog e m (Some cid)
                    (socketWrite sid line
                       (s\<lparr>pendingHandshakes := AList.update cid (h\<lparr>authenticated := True\<rparr>)
                             (pendingHandshakes s)\<rparr>)))
                 (\<lambda>s1. Inr (True, startUsernameChecker cid s1))
               = Inr (True, s')
           \<and> isClientAuthenticated cid s'
           \<and> tcpClients s' = tcpClients s
           \<and> clientNames s' = clientNames s
           \<and> clientStatus s' = clientStatus s
           \<and> clientLastHeartbeat s' = clientLastHeartbeat s
           \<and> clientStateCache s' = clientStateCache s
           \<and> clientUsernameStatus s' cid
               = (if checkerRunning s cid then clientUsernameStatus s cid
                  else Some \<lparr>hasUsername = False, requestSent = False, checker = True\<rparr>)
           \<and> destroyed (sockets s' sid) = destroyed (sockets s sid)
           \<and> written (sockets s' sid)
               = written (sockets s sid) @ (if destroyed (sockets s sid) then [] else [line])"
proof -
  let ?s0 = "socketWrite sid line
               (s\<lparr>pendingHandshakes := AList.update cid (h\<lparr>authenticated := True\<rparr>)
                     (pendingHandshakes s)\<rparr>)"
  have n: "displayName ?s0 = displayName s"
    by (simp add: displayName_def socketWrite_def fun_eq_iff)
  have "masterLogText m (Some cid) ?s0 = masterLogText m (Some cid) s"
    by (simp add: masterLogText_def n)
  with assms(3) have t: "masterLogText m (Some cid) ?s0 = Inr entry"
    by simp
  define s1 where "s1 = broadcastToBrowsers (MasterLogEvent (''['' @ localTime e @ ''] '' @ entry))
                          (?s0\<lparr>masterLog := pushLog (masterLog ?s0) (''['' @ localTime e @ ''] '' @ entry)\<rparr>)"
  have a: "addMasterLog e m (Some cid) ?s0 = Inr s1"
    using addMasterLog_appends [OF t] by (simp only: s1_def)
  have r: "andThen (addMasterLog e m (Some cid) ?s0) (\<lambda>s1. Inr (True, startUsernameChecker cid s1))
             = Inr (True, startUsernameChecker cid s1)"
    by (simp only: a andThen.simps)
  have p1: "isClientAuthenticated cid (startUsernameChecker cid s1)"
    using assms(2)
    by (simp add: s1_def startUsernameChecker_def addClientLog_def broadcastToBrowsers_def
        socketWrite_def isClientAuthenticated_def update_conv')
  have p2: "tcpClients (startUsernameChecker cid s1) = tcpClients s"
    "clientNames (startUsernameChecker cid s1) = clientNames s"
    "clientStatus (startUsernameChecker cid s1) = clientStatus s"
    "clientLastHeartbeat (startUsernameChecker cid s1) = clientLastHeartbeat s"
    "clientStateCache (startUsernameChecker cid s1) = clientStateCache s"
    by (simp_all add: s1_def startUsernameChecker_def addClientLog_def broadcastToBrowsers_def
        socketWrite_def)
  have p3: "clientUsernameStatus (startUsernameChecker cid s1) cid
               = (if checkerRunning s cid then clientUsernameStatus s cid
                  else Some \<lparr>hasUsername = False, requestSent = False, checker = True\<rparr>)"
    by (simp add: s1_def startUsernameChecker_def addClientLog_def broadcastToBrowsers_def
        socketWrite_def checkerRunning_def)
  have p4: "destroyed (sockets (startUsernameChecker cid s1) sid) = destroyed (sockets s sid)"
    "written (sockets (startUsernameChecker cid s1) sid)
       = written (sockets s sid) @ (if destroyed (sockets s sid) then [] else [line])"
    by (simp_all add: s1_def startUsernameChecker_def addClientLog_def broadcastToBrowsers_def
        socketWrite_def)
  from r p1 p2 p3 p4 show ?thesis
    by blast
qed

text \<open>
  Claim C1, as the code has it. The data handler tests the prefix \<open>$HandshakeResponse:\<close>
  before it tests authentication. Whatever the state of the connection, such a line is
  handed to \<open>processHandshakeResponse\<close> and never to the parser. For a client that is
  authenticated already and whose display name converts to a string: a line that arrives
  more than \<open>HANDSHAKE_TIMEOUT\<close> after the challenge was issued gets the client evicted
  (a master-log entry is written, the socket is destroyed, the id is removed from the
  socket table, the handshakes, the names, the statuses, the heartbeats, the state cache
  and the username statuses, and \<open>client_disconnect\<close> is published); within the timeout,
  a response that verifies leaves the client authenticated and its records in place and
  writes \<open>$HandshakeSuccess\<close> again, and the username checker is started anew unless
  one is running; a response that verifies to false gets the client evicted in the same
  way as a late one; an exception of the verification leaves the handler.
\<close>

theorem handshake_response_after_auth:
  assumes "startsWith msg ''$HandshakeResponse:''"
    and "cid = getClientId (sockets s sid)"
  shows "onDataLine parse e sid msg s = onDataLine parse' e sid msg s
       \<and> onDataLine parse e sid msg s
           = (case processHandshakeResponse e sid cid (js_trim (drop 19 msg)) s of
                Inl err \<Rightarrow> Inl err
              | Inr (ok, s1) \<Rightarrow> Inr s1)
       \<and> (\<forall>h name.
            map_of (pendingHandshakes s) cid = Some h \<and> authenticated h
            \<and> toStringJS (displayName s cid) = Inr name \<longrightarrow>
            (if now e - timestamp h > HANDSHAKE_TIMEOUT then
               (\<exists>s' entry.
                  onDataLine parse e sid msg s = Inr s'
                  \<and> masterLogText (''Handshake response too late from '' @ cid) (Some cid) s = Inr entry
                  \<and> evicted sid cid s'
                  \<and> clientLogs s' cid
                      = (if checkerRunning s cid then Some [''[Username checker stopped]''] else None)
                  \<and> masterLog s' = pushLog (masterLog s) (''['' @ localTime e @ ''] '' @ entry)
                  \<and> published s'
                      = published s @ [MasterLogEvent (''['' @ localTime e @ ''] '' @ entry)]
                          @ (if checkerRunning s cid then [LogEvent cid ''[Username checker stopped]''] else [])
                          @ [ClientDisconnect cid])
             else
               (case isValidHandshakeResponse (challenge h) (js_trim (drop 19 msg)) (HANDSHAKE_SECRET s) of
                  Inl err \<Rightarrow> onDataLine parse e sid msg s = Inl err
                | Inr True \<Rightarrow>
                    (\<exists>s'. onDataLine parse e sid msg s = Inr s'
                       \<and> isClientAuthenticated cid s'
                       \<and> tcpClients s' = tcpClients s
                       \<and> clientNames s' = clientNames s
                       \<and> clientStatus s' = clientStatus s
                       \<and> clientLastHeartbeat s' = clientLastHeartbeat s
                       \<and> clientStateCache s' = clientStateCache s
                       \<and> clientUsernameStatus s' cid
                           = (if checkerRunning s cid then clientUsernameStatus s cid
                              else Some \<lparr>hasUsername = False, requestSent = False, checker = True\<rparr>)
                       \<and> destroyed (sockets s' sid) = destroyed (sockets s sid)
                       \<and> written (sockets s' sid)
                           = written (sockets s sid)
                               @ (if destroyed (sockets s sid) then []
                                  else [''$HandshakeSuccess'' @ [CHR 0x0A]]))
                | Inr False \<Rightarrow>
                    (\<exists>s' entry.
                       onDataLine parse e sid msg s = Inr s'
                       \<and> masterLogText (''Handshake failed for '' @ cid @ '' - invalid response'')
                             (Some cid) s = Inr entry
                       \<and> evicted sid cid s'
                       \<and> clientLogs s' cid
                           = (if checkerRunning s cid then Some [''[Username checker stopped]''] else None)
                       \<and> masterLog s' = pushLog (masterLog s) (''['' @ localTime e @ ''] '' @ entry)
                       \<and> published s'
                           = published s @ [MasterLogEvent (''['' @ localTime e @ ''] '' @ entry)]
                               @ (if checkerRunning s cid then [LogEvent cid ''[Username checker stopped]''] else [])
                               @ [ClientDisconnect cid]))))
       \<and> (\<forall>h err.
            map_of (pendingHandshakes s) cid = Some h
            \<and> toStringJS (displayName s cid) = Inl err \<longrightarrow>
            onDataLine parse e sid msg s
              = (if now e - timestamp h > HANDSHAKE_TIMEOUT then Inl err
                 else case isValidHandshakeResponse (challenge h) (js_trim (drop 19 msg)) (HANDSHAKE_SECRET s) of
                        Inl err' \<Rightarrow> Inl err'
                      | Inr ok \<Rightarrow> Inl err))"
proof (intro conjI allI impI)
  show "onDataLine parse e sid msg s = onDataLine parse' e sid msg s"
    using assms by (simp add: onDataLine_def Let_def)
  show route: "onDataLine parse e sid msg s
           = (case processHandshakeResponse e sid cid (js_trim (drop 19 msg)) s of
                Inl err \<Rightarrow> Inl err
              | Inr (ok, s1) \<Rightarrow> Inr s1)"
    using assms by (simp add: onDataLine_def Let_def)
  fix h name
  assume a: "map_of (pendingHandshakes s) cid = Some h \<and> authenticated h
            \<and> toStringJS (displayName s cid) = Inr name"
  then have h: "map_of (pendingHandshakes s) cid = Some h" and auth: "authenticated h"
    and n: "toStringJS (displayName s cid) = Inr name"
    by simp_all
  let ?r = "js_trim (drop 19 msg)"
  let ?late = "''Handshake response too late from '' @ cid"
  let ?failed = "''Handshake failed for '' @ cid @ '' - invalid response''"
  let ?ok = "''Handshake successful for '' @ cid"
  obtain l where l: "masterLogText ?late (Some cid) s = Inr l"
    using masterLogText_printable [OF n] by blast
  obtain f where f: "masterLogText ?failed (Some cid) s = Inr f"
    using masterLogText_printable [OF n] by blast
  obtain k where k: "masterLogText ?ok (Some cid) s = Inr k"
    using masterLogText_printable [OF n] by blast
  show "if now e - timestamp h > HANDSHAKE_TIMEOUT then
               (\<exists>s' entry.
                  onDataLine parse e sid msg s = Inr s'
                  \<and> masterLogText (''Handshake response too late from '' @ cid) (Some cid) s = Inr entry
                  \<and> evicted sid cid s'
                  \<and> clientLogs s' cid
                      = (if checkerRunning s cid then Some [''[Username checker stopped]''] else None)
                  \<and> masterLog s' = pushLog (masterLog s) (''['' @ localTime e @ ''] '' @ entry)
                  \<and> published s'
                      = published s @ [MasterLogEvent (''['' @ localTime e @ ''] '' @ entry)]
                          @ (if checkerRunning s cid then [LogEvent cid ''[Username checker stopped]''] else [])
                          @ [ClientDisconnect cid])
             else
               (case isValidHandshakeResponse (challenge h) (js_trim (drop 19 msg)) (HANDSHAKE_SECRET s) of
                  Inl err \<Rightarrow> onDataLine parse e sid msg s = Inl err
                | Inr True \<Rightarrow>
                    (\<exists>s'. onDataLine parse e sid msg s = Inr s'
                       \<and> isClientAuthenticated cid s'
                       \<and> tcpClients s' = tcpClients s
                       \<and> clientNames s' = clientNames s
                       \<and> clientStatus s' = clientStatus s
                       \<and> clientLastHeartbeat s' = clientLastHeartbeat s
                       \<and> clientStateCache s' = clientStateCache s
                       \<and> clientUsernameStatus s' cid
                           = (if checkerRunning s cid then clientUsernameStatus s cid
                              else Some \<lparr>hasUsername = False, requestSent = False, checker = True\<rparr>)
                       \<and> destroyed (sockets s' sid) = destroyed (sockets s sid)
                       \<and> written (sockets s' sid)
                           = written (sockets s sid)
                               @ (if destroyed (sockets s sid) then []
                                  else [''$HandshakeSuccess'' @ [CHR 0x0A]]))
                | Inr False \<Rightarrow>
                    (\<exists>s' entry.
                       onDataLine parse e sid msg s = Inr s'
                       \<and> masterLogText (''Handshake failed for '' @ cid @ '' - invalid response'')
                             (Some cid) s = Inr entry
                       \<and> evicted sid cid s'
                       \<and> clientLogs s' cid
                           = (if checkerRunning s cid then Some [''[Username checker stopped]''] else None)
                       \<and> masterLog s' = pushLog (masterLog s) (''['' @ localTime e @ ''] '' @ entry)
                       \<and> published s'
                           = published s @ [MasterLogEvent (''['' @ localTime e @ ''] '' @ entry)]
                               @ (if checkerRunning s cid then [LogEvent cid ''[Username checker stopped]''] else [])
                               @ [ClientDisconnect cid]))"
  proof (cases "now e - timestamp h > HANDSHAKE_TIMEOUT")
    case True
    from rejected_response_evicts [OF l, of e sid] obtain s' where
      "andThen (addMasterLog e ?late (Some cid) s)
         (\<lambda>s1. Inr (False, broadcastToBrowsers (ClientDisconnect cid)
                              (cleanupClient cid (socketDestroy sid s1))))
         = Inr (False, s')"
      and p: "evicted sid cid s'"
        "clientLogs s' cid
           = (if checkerRunning s cid then Some [''[Username checker stopped]''] else None)"
        "masterLog s' = pushLog (masterLog s) (''['' @ localTime e @ ''] '' @ l)"
        "published s'
           = published s @ [MasterLogEvent (''['' @ localTime e @ ''] '' @ l)]
               @ (if checkerRunning s cid then [LogEvent cid ''[Username checker stopped]''] else [])
               @ [ClientDisconnect cid]"
      by blast
    with h True have "processHandshakeResponse e sid cid ?r s = Inr (False, s')"
      by (simp add: processHandshakeResponse_def)
    with route have "onDataLine parse e sid msg s = Inr s'"
      by simp
    with p l True show ?thesis
      by (simp only: if_True) blast
  next
    case False
    show ?thesis
    proof (cases "isValidHandshakeResponse (challenge h) ?r (HANDSHAKE_SECRET s)")
      case (Inl err)
      with h False have "processHandshakeResponse e sid cid ?r s = Inl err"
        by (simp add: processHandshakeResponse_def)
      with route have "onDataLine parse e sid msg s = Inl err"
        by simp
      with False Inl show ?thesis
        by simp
    next
      case (Inr ok)
      show ?thesis
      proof (cases ok)
        case True
        from accepted_response_again [OF h auth k, of e sid "''$HandshakeSuccess'' @ [CHR 0x0A]"]
        obtain s' where
          "andThen
             (addMasterLog e ?ok (Some cid)
                (socketWrite sid (''$HandshakeSuccess'' @ [CHR 0x0A])
                   (s\<lparr>pendingHandshakes := AList.update cid (h\<lparr>authenticated := True\<rparr>)
                         (pendingHandshakes s)\<rparr>)))
             (\<lambda>s1. Inr (True, startUsernameChecker cid s1))
             = Inr (True, s')"
          and p: "isClientAuthenticated cid s'" "tcpClients s' = tcpClients s"
            "clientNames s' = clientNames s" "clientStatus s' = clientStatus s"
            "clientLastHeartbeat s' = clientLastHeartbeat s"
            "clientStateCache s' = clientStateCache s"
            "clientUsernameStatus s' cid
               = (if checkerRunning s cid then clientUsernameStatus s cid
                  else Some \<lparr>hasUsername = False, requestSent = False, checker = True\<rparr>)"
            "destroyed (sockets s' sid) = destroyed (sockets s sid)"
            "written (sockets s' sid)
               = written (sockets s sid)
                   @ (if destroyed (sockets s sid) then [] else [''$HandshakeSuccess'' @ [CHR 0x0A]])"
          by blast
        with h False Inr True have "processHandshakeResponse e sid cid ?r s = Inr (True, s')"
          by (simp add: processHandshakeResponse_def)
        with route have "onDataLine parse e sid msg s = Inr s'"
          by simp
        with p have "\<exists>s'. onDataLine parse e sid msg s = Inr s'
                       \<and> isClientAuthenticated cid s'
                       \<and> tcpClients s' = tcpClients s
                       \<and> clientNames s' = clientNames s
                       \<and> clientStatus s' = clientStatus s
                       \<and> clientLastHeartbeat s' = clientLastHeartbeat s
                       \<and> clientStateCache s' = clientStateCache s
                       \<and> clientUsernameStatus s' cid
                           = (if checkerRunning s cid then clientUsernameStatus s cid
                              else Some \<lparr>hasUsername = False, requestSent = False, checker = True\<rparr>)
                       \<and> destroyed (sockets s' sid) = destroyed (sockets s sid)
                       \<and> written (sockets s' sid)
                           = written (sockets s sid)
                               @ (if destroyed (sockets s sid) then []
                                  else [''$HandshakeSuccess'' @ [CHR 0x0A]])"
          by blast
        with False Inr True show ?thesis
          by simp
      next
        case no: False
        from rejected_response_evicts [OF f, of e sid] obtain s' where
          "andThen (addMasterLog e ?failed (Some cid) s)
             (\<lambda>s1. Inr (False, broadcastToBrowsers (ClientDisconnect cid)
                                  (cleanupClient cid (socketDestroy sid s1))))
             = Inr (False, s')"
          and p: "evicted sid cid s'"
            "clientLogs s' cid
               = (if checkerRunning s cid then Some [''[Username checker stopped]''] else None)"
            "masterLog s' = pushLog (masterLog s) (''['' @ localTime e @ ''] '' @ f)"
            "published s'
               = published s @ [MasterLogEvent (''['' @ localTime e @ ''] '' @ f)]
                   @ (if checkerRunning s cid then [LogEvent cid ''[Username checker stopped]''] else [])
                   @ [ClientDisconnect cid]"
          by blast
        with h False Inr no have "processHandshakeResponse e sid cid ?r s = Inr (False, s')"
          by (simp add: processHandshakeResponse_def)
        with route have "onDataLine parse e sid msg s = Inr s'"
          by simp
        with p f have "\<exists>s' entry.
                       onDataLine parse e sid msg s = Inr s'
                       \<and> masterLogText (''Handshake failed for '' @ cid @ '' - invalid response'')
                             (Some cid) s = Inr entry
                       \<and> evicted sid cid s'
                       \<and> clientLogs s' cid
                           = (if checkerRunning s cid then Some [''[Username checker stopped]''] else None)
                       \<and> masterLog s' = pushLog (masterLog s) (''['' @ localTime e @ ''] '' @ entry)
                       \<and> published s'
                           = published s @ [MasterLogEvent (''['' @ localTime e @ ''] '' @ entry)]
                               @ (if checkerRunning s cid then [LogEvent cid ''[Username checker stopped]''] else [])
                               @ [ClientDisconnect cid]"
          by blast
        with False Inr no show ?thesis
          by simp
      qed
    qed
  qed
next
  fix h err
  assume a: "map_of (pendingHandshakes s) cid = Some h
            \<and> toStringJS (displayName s cid) = Inl err"
  have c: "cid \<noteq> []"
    using assms(2) by (simp add: getClientId_nonempty)
  have m: "masterLogText m (Some cid) s = Inl err" for m
    using a c by (simp add: masterLogText_unprintable)
  have m': "masterLogText m (Some cid)
              (socketWrite sid line (s\<lparr>pendingHandshakes := hs\<rparr>)) = Inl err" for m line hs
    using m [of m]
    masterLogText_frame [of "socketWrite sid line (s\<lparr>pendingHandshakes := hs\<rparr>)" s m "Some cid"]
    by (simp add: socketWrite_def)
  have "processHandshakeResponse e sid cid (js_trim (drop 19 msg)) s
      = (if now e - timestamp h > HANDSHAKE_TIMEOUT then Inl err
         else case isValidHandshakeResponse (challenge h) (js_trim (drop 19 msg)) (HANDSHAKE_SECRET s) of
                Inl err' \<Rightarrow> Inl err'
              | Inr ok \<Rightarrow> Inl err)"
    using a
    by (simp add: processHandshakeResponse_def addMasterLog_throws [OF m] addMasterLog_throws [OF m']
        split: sum.splits bool.splits)
  then show "onDataLine parse e sid msg s
              = (if now e - timestamp h > HANDSHAKE_TIMEOUT then Inl err
                 else case isValidHandshakeResponse (challenge h) (js_trim (drop 19 msg)) (HANDSHAKE_SECRET s) of
                        Inl err' \<Rightarrow> Inl err'
                      | Inr ok \<Rightarrow> Inl err)"
    using assms by (simp add: onDataLine_def Let_def split: sum.splits)
qed

theorem handshake_response_after_auth_witness:
  "startsWith ''$HandshakeResponse:00'' ''$HandshakeResponse:''
   \<and> exampleId = getClientId (sockets authenticatedServer 0)
   \<and> map_of (pendingHandshakes authenticatedServer) exampleId
       = Some \<lparr>challenge = ''c0ffee'', timestamp = 0, authenticated = True\<rparr>
   \<and> authenticated \<lparr>challenge = ''c0ffee'', timestamp = 0, authenticated = True\<rparr>
   \<and> toStringJS (displayName authenticatedServer exampleId) = Inr exampleId
   \<and> now (at 10001) - timestamp \<lparr>challenge = ''c0ffee'', timestamp = 0, authenticated = True\<rparr>
       > HANDSHAKE_TIMEOUT
   \<and> onDataLine (\<lambda>l. None) (at 10001) 0 ''$HandshakeResponse:00'' authenticatedServer
       = onDataLine (\<lambda>l. Some legacyStatus) (at 10001) 0 ''$HandshakeResponse:00'' authenticatedServer
   \<and> (\<exists>s'. onDataLine (\<lambda>l. None) (at 10001) 0 ''$HandshakeResponse:00'' authenticatedServer = Inr s'
          \<and> evicted 0 exampleId s'
          \<and> clientLogs s' exampleId = Some [''[Username checker stopped]'']
          \<and> published s'
              = [MasterLogEvent ''[00:00:00] Handshake response too late from 10.0.0.5:4242'',
                 LogEvent exampleId ''[Username checker stopped]'',
                 ClientDisconnect exampleId])"
proof -
  let ?h = "\<lparr>challenge = ''c0ffee'', timestamp = 0, authenticated = True\<rparr>"
  let ?msg = "''$HandshakeResponse:00''"
  have h1: "startsWith ?msg ''$HandshakeResponse:''"
    by (simp add: startsWith_def)
  have h2: "exampleId = getClientId (sockets authenticatedServer 0)"
    by simp
  have h3: "map_of (pendingHandshakes authenticatedServer) exampleId = Some ?h"
    by (simp add: authenticatedServer_def awaitingServer_def)
  have h4: "authenticated ?h"
    by simp
  have h5: "toStringJS (displayName authenticatedServer exampleId) = Inr exampleId"
    by (simp add: displayName_def authenticatedServer_def awaitingServer_def)
  have late: "now (at 10001) - timestamp ?h > HANDSHAKE_TIMEOUT"
    by (simp add: at_def HANDSHAKE_TIMEOUT_def)
  have run: "checkerRunning authenticatedServer exampleId"
    by (simp add: checkerRunning_def authenticatedServer_def)
  have pub: "published authenticatedServer = []"
    by (simp add: authenticatedServer_def awaitingServer_def initialServer_def)
  have mt: "masterLogText (''Handshake response too late from '' @ exampleId) (Some exampleId)
               authenticatedServer = Inr ''Handshake response too late from 10.0.0.5:4242''"
    by (simp add: masterLogText_def displayName_def authenticatedServer_def awaitingServer_def
        exampleId_def js_replace_def startsWith_def)
  note t = handshake_response_after_auth [OF h1 h2, of "\<lambda>l. None" "at 10001" "\<lambda>l. Some legacyStatus"]
  from t have c1: "onDataLine (\<lambda>l. None) (at 10001) 0 ?msg authenticatedServer
       = onDataLine (\<lambda>l. Some legacyStatus) (at 10001) 0 ?msg authenticatedServer"
    by (rule conjunct1)
  from t [THEN conjunct2, THEN conjunct2, THEN conjunct1, rule_format,
      OF conjI [OF h3 conjI [OF h4 h5]]] late
  have "\<exists>s' entry.
          onDataLine (\<lambda>l. None) (at 10001) 0 ?msg authenticatedServer = Inr s'
          \<and> masterLogText (''Handshake response too late from '' @ exampleId) (Some exampleId)
                authenticatedServer = Inr entry
          \<and> evicted 0 exampleId s'
          \<and> clientLogs s' exampleId
              = (if checkerRunning authenticatedServer exampleId
                 then Some [''[Username checker stopped]''] else None)
          \<and> masterLog s' = pushLog (masterLog authenticatedServer) (''['' @ localTime (at 10001) @ ''] '' @ entry)
          \<and> published s'
              = published authenticatedServer @ [MasterLogEvent (''['' @ localTime (at 10001) @ ''] '' @ entry)]
                  @ (if checkerRunning authenticatedServer exampleId
                     then [LogEvent exampleId ''[Username checker stopped]''] else [])
                  @ [ClientDisconnect exampleId]"
    by (simp only: if_P)
  then obtain s' entry where
    r: "onDataLine (\<lambda>l. None) (at 10001) 0 ?msg authenticatedServer = Inr s'"
      "masterLogText (''Handshake response too late from '' @ exampleId) (Some exampleId)
         authenticatedServer = Inr entry"
      "evicted 0 exampleId s'"
      "clientLogs s' exampleId
         = (if checkerRunning authenticatedServer exampleId
            then Some [''[Username checker stopped]''] else None)"
      "published s'
         = published authenticatedServer @ [MasterLogEvent (''['' @ localTime (at 10001) @ ''] '' @ entry)]
             @ (if checkerRunning authenticatedServer exampleId
                then [LogEvent exampleId ''[Username checker stopped]''] else [])
             @ [ClientDisconnect exampleId]"
    by blast
  from r(2) mt have e: "entry = ''Handshake response too late from 10.0.0.5:4242''"
    by simp
  from r(4) run have l: "clientLogs s' exampleId = Some [''[Username checker stopped]'']"
    by simp
  from r(5) run pub e have p: "published s'
      = [MasterLogEvent ''[00:00:00] Handshake response too late from 10.0.0.5:4242'',
         LogEvent exampleId ''[Username checker stopped]'',
         ClientDisconnect exampleId]"
    by (simp add: at_def)
  from r(1,3) l p have c2: "\<exists>s'. onDataLine (\<lambda>l. None) (at 10001) 0 ?msg authenticatedServer = Inr s'
          \<and> evicted 0 exampleId s'
          \<and> clientLogs s' exampleId = Some [''[Username checker stopped]'']
          \<and> published s'
              = [MasterLogEvent ''[00:00:00] Handshake response too late from 10.0.0.5:4242'',
                 LogEvent exampleId ''[Username checker stopped]'',
                 ClientDisconnect exampleId]"
    by blast
  from h1 h2 h3 h4 h5 late c1 c2 show ?thesis
    by (intro conjI)
qed

text \<open>
  Claim C1 as stated fails: twenty seconds after the challenge, the authenticated client
  sends a line that starts with \<open>$HandshakeResponse:\<close>. The line is handled as a late
  handshake response: the socket is destroyed, the client's entries are removed from every
  per-client map, and \<open>client_disconnect\<close> is published.
\<close>

theorem handshake_response_after_auth_destroys:
  "(case onDataLine (\<lambda>l. None) (at 20000) 0 ''$HandshakeResponse:00'' authenticatedServer of
      Inl err \<Rightarrow> False
    | Inr s' \<Rightarrow>
        destroyed (sockets s' 0)
        \<and> map_of (pendingHandshakes s') exampleId = None
        \<and> map_of (tcpClients s') exampleId = None
        \<and> clientNames s' exampleId = None
        \<and> clientStatus s' exampleId = None
        \<and> clientLastHeartbeat s' exampleId = None
        \<and> clientStateCache s' exampleId = None
        \<and> clientUsernameStatus s' exampleId = None
        \<and> clientLogs s' exampleId = Some [''[Username checker stopped]'']
        \<and> published s'
            = [MasterLogEvent ''[00:00:00] Handshake response too late from 10.0.0.5:4242'',
               LogEvent exampleId ''[Username checker stopped]'',
               ClientDisconnect exampleId])"
  by (simp add: onDataLine_def processHandshakeResponse_def authenticatedServer_def awaitingServer_def
      initialServer_def at_def HANDSHAKE_TIMEOUT_def getClientId_def exampleId_def startsWith_def
      Let_def cleanupClient_def stopUsernameChecker_def addClientLog_def broadcastToBrowsers_def
      socketDestroy_def addMasterLog_def masterLogText_def displayName_def js_replace_def
      pushLog_def MAX_LOGS_def)

subsection \<open>The handshake verification\<close>

lemma length_round1: "length (round1 st k w) = length st"
  by (induction st k w rule: round1.induct) simp_all

lemma length_rounds: "length (rounds st ks ws) = length st"
  by (induction st ks ws rule: rounds.induct) (simp_all add: length_round1)

lemma length_compress: "length (compress hs block) = length hs"
  by (simp add: compress_def length_rounds)

lemma length_foldl_compress: "length (foldl compress hs blocks) = length hs"
  by (induction blocks arbitrary: hs) (simp_all add: length_compress)

lemma length_concat_w32Bytes: "length (concat (map w32Bytes ws)) = 4 * length ws"
  by (induction ws) (simp_all add: w32Bytes_def)

lemma length_sha256: "length (sha256 bs) = 32"
  by (simp add: sha256_def length_concat_w32Bytes length_foldl_compress H256_def)

lemma length_hmacSha256: "length (hmacSha256 key msg) = 32"
  by (simp add: hmacSha256_def length_sha256)

lemma nibble_cases:
  "k < (16::nat) \<Longrightarrow> k \<in> {0, 1, 2, 3, 4, 5, 6, 7, 8, 9, 10, 11, 12, 13, 14, 15}"
  by simp presburger

lemma unhex_hexDigit: "n < 16 \<Longrightarrow> unhex (hexDigit n) = Some n"
  by (drule nibble_cases) (elim insertE emptyE; simp add: hexDigit_def unhex_def)

lemma nibble_bounds: "unat (b :: byte) div 16 < 16" "unat (b :: byte) mod 16 < 16"
  using unsigned_less [of b, where 'a=nat] by simp_all

lemma bufferFromHex_toHex: "bufferFromHex (toHex bs) = bs"
  by (induction bs) (simp_all add: toHex_def unhex_hexDigit nibble_bounds)

lemma bufferFromHex_expected:
  "bufferFromHex (computeHandshakeResponse c s) = hmacSha256 (utf8 s) (utf8 c)"
  by (simp add: computeHandshakeResponse_def bufferFromHex_toHex)

lemma flip_ne: "j < 8 \<Longrightarrow> (b :: byte) XOR 2 ^ j \<noteq> b"
proof
  assume j: "j < 8" and "b XOR 2 ^ j = b"
  then have "b XOR (b XOR 2 ^ j) = b XOR b" by simp
  then have "(2 :: byte) ^ j = 0" by (simp flip: xor.assoc)
  with j show False by simp
qed

lemma unhex_flipped:
  "lo < 16 \<Longrightarrow> unhex (char_of ((of_char (hexDigit lo) :: nat) XOR 32))
     = (if lo < 10 then None else Some lo)"
  by (drule nibble_cases) (elim insertE emptyE; simp add: hexDigit_def unhex_def)

lemma flip_second_digit:
  assumes "unhex a = Some x" and "lo < 16"
  shows "bufferFromHex (a # char_of ((of_char (hexDigit lo) :: nat) XOR 32) # rest)
           = (if lo < 10 then [] else word_of_nat (16 * x + lo) # bufferFromHex rest)"
  by (simp add: assms unhex_flipped)

lemma flipCharBit_toHex:
  "bufferFromHex (flipCharBit 1 5 (toHex (b # bs))) = b # bs
   \<or> bufferFromHex (flipCharBit 1 5 (toHex (b # bs))) = []"
  using flip_second_digit [OF unhex_hexDigit [OF nibble_bounds(1)] nibble_bounds(2), of b b "toHex bs"]
    bufferFromHex_toHex [of bs]
  by (auto simp: flipCharBit_def toHex_def)

text \<open>
  Claim C2 fails on the code. The expected response decodes to 32 bytes, and
  \<open>crypto.timingSafeEqual\<close> throws a RangeError when the candidate decodes to another
  number of bytes: for the candidate \<open>abcd\<close> (two bytes), \<open>isValidHandshakeResponse\<close>
  does not return false, it throws, whatever the challenge and the secret.
\<close>

theorem verify_throws_on_short_response:
  "isValidHandshakeResponse c ''abcd'' s = Inl RangeError"
  by (simp add: isValidHandshakeResponse_def timingSafeEqual_def bufferFromHex_expected
      length_hmacSha256 unhex_def)

text \<open>
  Claim C5, as the code has it. For every challenge and secret the expected response
  verifies. A candidate is rejected (the result is false) when its hex decoding has the 32
  bytes of a digest and differs from the expected bytes; in particular the hex text of the
  expected bytes with any one bit flipped is rejected.
\<close>

theorem verify_accepts_expected_rejects_other_bytes:
  "isValidHandshakeResponse c (computeHandshakeResponse c s) s = Inr True
   \<and> (length (bufferFromHex r) = 32 \<and> bufferFromHex r \<noteq> hmacSha256 (utf8 s) (utf8 c)
        \<longrightarrow> isValidHandshakeResponse c r s = Inr False)
   \<and> (i < 32 \<and> j < 8 \<longrightarrow>
        isValidHandshakeResponse c (toHex (flipByteBit i j (hmacSha256 (utf8 s) (utf8 c)))) s = Inr False)"
proof (intro conjI impI)
  show "isValidHandshakeResponse c (computeHandshakeResponse c s) s = Inr True"
    by (simp add: isValidHandshakeResponse_def timingSafeEqual_def)
  show "isValidHandshakeResponse c r s = Inr False"
    if "length (bufferFromHex r) = 32 \<and> bufferFromHex r \<noteq> hmacSha256 (utf8 s) (utf8 c)"
    using that
    by (simp add: isValidHandshakeResponse_def timingSafeEqual_def bufferFromHex_expected length_hmacSha256)
  show "isValidHandshakeResponse c (toHex (flipByteBit i j (hmacSha256 (utf8 s) (utf8 c)))) s = Inr False"
    if "i < 32 \<and> j < 8"
  proof -
    let ?h = "hmacSha256 (utf8 s) (utf8 c)"
    have "flipByteBit i j ?h ! i \<noteq> ?h ! i"
      using that by (simp add: flipByteBit_def length_hmacSha256 flip_ne)
    then have "flipByteBit i j ?h \<noteq> ?h" by metis
    then show ?thesis
      by (simp add: isValidHandshakeResponse_def timingSafeEqual_def bufferFromHex_expected
          bufferFromHex_toHex length_hmacSha256 flipByteBit_def)
  qed
qed

theorem verify_accepts_expected_rejects_other_bytes_witness:
  "length (bufferFromHex (toHex (flipByteBit 0 0 (hmacSha256 (utf8 ''Jefe'') (utf8 ''c0ffee''))))) = 32
   \<and> bufferFromHex (toHex (flipByteBit 0 0 (hmacSha256 (utf8 ''Jefe'') (utf8 ''c0ffee''))))
       \<noteq> hmacSha256 (utf8 ''Jefe'') (utf8 ''c0ffee'')
   \<and> (0 :: nat) < 32 \<and> (0 :: nat) < 8
   \<and> isValidHandshakeResponse ''c0ffee''
         (toHex (flipByteBit 0 0 (hmacSha256 (utf8 ''Jefe'') (utf8 ''c0ffee'')))) ''Jefe'' = Inr False
   \<and> isValidHandshakeResponse ''c0ffee'' (computeHandshakeResponse ''c0ffee'' ''Jefe'') ''Jefe'' = Inr True"
proof -
  let ?h = "hmacSha256 (utf8 ''Jefe'') (utf8 ''c0ffee'')"
  let ?r = "toHex (flipByteBit 0 0 ?h)"
  have a: "length (bufferFromHex ?r) = 32"
    by (simp add: bufferFromHex_toHex flipByteBit_def length_hmacSha256)
  have "flipByteBit 0 0 ?h ! 0 \<noteq> ?h ! 0"
    using flip_ne [of 0 "?h ! 0"] by (simp add: flipByteBit_def length_hmacSha256)
  then have "flipByteBit 0 0 ?h \<noteq> ?h"
    by metis
  then have b: "bufferFromHex ?r \<noteq> ?h"
    by (simp add: bufferFromHex_toHex)
  note t = verify_accepts_expected_rejects_other_bytes [of "''c0ffee''" "''Jefe''" ?r 0 0]
  from t a b have c: "isValidHandshakeResponse ''c0ffee'' ?r ''Jefe'' = Inr False"
    by blast
  from t have d: "isValidHandshakeResponse ''c0ffee'' (computeHandshakeResponse ''c0ffee'' ''Jefe'') ''Jefe'' = Inr True"
    by (rule conjunct1)
  from a b c d show ?thesis
    by simp
qed

text \<open>
  Claim C5 as stated fails: a response with one bit flipped is not always answered with
  false. The candidate is the expected response for the challenge
  \<open>what do ya want for nothing?\<close> under the secret \<open>Jefe\<close> with bit 5 of its second
  character flipped. Where that character is a letter, the flip only changes its case, the
  candidate decodes to the expected bytes and is accepted (the digest starts with
  \<open>5b\<close>, the candidate with \<open>5B\<close>); where it is a digit, the flip leaves no hex digit,
  decoding stops and the comparison throws. In neither case is the result false.
\<close>

theorem verify_accepts_or_throws_on_flipped_bit:
  "isValidHandshakeResponse ''what do ya want for nothing?''
     (flipCharBit 1 5 (computeHandshakeResponse ''what do ya want for nothing?'' ''Jefe''))
     ''Jefe'' \<noteq> Inr False"
proof -
  let ?h = "hmacSha256 (utf8 ''Jefe'') (utf8 ''what do ya want for nothing?'')"
  have "length ?h = 32" by (rule length_hmacSha256)
  then obtain b bs where h: "?h = b # bs" by (cases ?h) auto
  from flipCharBit_toHex [of b bs] show ?thesis
    using h \<open>length ?h = 32\<close>
    by (auto simp: isValidHandshakeResponse_def timingSafeEqual_def bufferFromHex_expected
        computeHandshakeResponse_def bufferFromHex_toHex)
qed

subsection \<open>The state diff\<close>

declare deepCompare.simps [simp del]

lemma set_firstOccurrences: "set (firstOccurrences seen xs) = set xs - set seen"
  by (induction xs arbitrary: seen) auto

lemma distinct_firstOccurrences: "distinct (firstOccurrences seen xs)"
  by (induction xs arbitrary: seen) (auto simp: set_firstOccurrences)

lemma set_objectKeys: "set (objectKeys kvs) = fst ` set kvs"
  by (simp add: objectKeys_def set_firstOccurrences)

lemma distinct_objectKeys: "distinct (objectKeys kvs)"
  by (simp add: objectKeys_def distinct_firstOccurrences)

lemma deepCompare_refl: "deepCompare v v"
proof (induction v)
  case (JArr xs)
  have "deepCompare (ownGet (JArr xs) key) (ownGet (JArr xs) key)"
    if "key \<in> set (objectKeys (entriesOf (JArr xs)))" for key
  proof -
    from that obtain x where "map_of (entriesOf (JArr xs)) key = Some x"
      by (auto simp: set_objectKeys) (metis domD dom_map_of_conv_image_fst fst_conv image_eqI)
    moreover from this have "x \<in> set xs"
      by (auto dest!: map_of_SomeD set_zip_rightD)
    ultimately show ?thesis using JArr by (simp add: ownGet_def)
  qed
  then show ?case
    by (subst deepCompare.simps) (simp add: list_all_iff)
next
  case (JObj kvs)
  have "deepCompare (ownGet (JObj kvs) key) (ownGet (JObj kvs) key)"
    if "key \<in> set (objectKeys (entriesOf (JObj kvs)))" for key
  proof -
    from that obtain x where x: "map_of kvs key = Some x"
      by (auto simp: set_objectKeys) (metis domD dom_map_of_conv_image_fst fst_conv image_eqI)
    then have "(key, x) \<in> set kvs" by (rule map_of_SomeD)
    then have "deepCompare x x" using JObj by (auto simp: snds.simps)
    with x show ?thesis by (simp add: ownGet_def)
  qed
  then show ?case
    by (subst deepCompare.simps) (simp add: list_all_iff)
qed (simp_all add: deepCompare.simps)

lemma deepCompare_prim:
  "typeof a \<noteq> TObject \<Longrightarrow> deepCompare a b = strictEq a b"
  by (subst deepCompare.simps) (cases a; cases b; simp)

lemma map_of_insertIndex:
  "k \<notin> fst ` set kvs \<Longrightarrow> map_of (insertIndex k v kvs) = (map_of kvs)(k \<mapsto> v)"
  by (induction kvs) (auto simp: fun_upd_twist)

lemma map_of_update_in_place:
  "map_of (map (\<lambda>(k', v'). if k' = k then (k', v) else (k', v')) kvs) =
     (if k \<in> fst ` set kvs then (map_of kvs)(k \<mapsto> v) else map_of kvs)"
  by (induction kvs) (auto simp: fun_upd_twist)

lemma map_of_absent: "k \<notin> fst ` set kvs \<Longrightarrow> map_of kvs k = None"
  by (simp add: map_of_eq_None_iff)

lemma map_of_setProperty: "map_of (setProperty kvs k v) = (map_of kvs)(k \<mapsto> v)"
proof (cases "k \<in> fst ` set kvs")
  case True
  then show ?thesis by (simp add: setProperty_def map_of_update_in_place)
next
  case False
  then have "map_of (kvs @ [(k, v)]) = (map_of kvs)(k \<mapsto> v)"
    by (auto simp: map_add_def map_of_absent fun_eq_iff split: option.splits)
  with False show ?thesis by (simp add: setProperty_def map_of_insertIndex)
qed


lemma map_of_fold_setProperty:
  "map_of (fold (\<lambda>k acc. setProperty acc k (g k)) keys acc) =
     (\<lambda>k. if k \<in> set keys then Some (g k) else map_of acc k)"
  by (induction keys arbitrary: acc) (auto simp: map_of_setProperty fun_eq_iff)

lemma map_of_spread: "map_of (spread kvs) = map_of kvs"
proof
  fix k
  show "map_of (spread kvs) k = map_of kvs k"
  proof (cases "map_of kvs k")
    case None
    then have "k \<notin> fst ` set kvs"
      by (simp add: map_of_eq_None_iff)
    with None show ?thesis
      by (simp add: spread_def map_of_fold_setProperty set_objectKeys)
  next
    case (Some v)
    then have "k \<in> fst ` set kvs"
      by (metis domI dom_map_of_conv_image_fst)
    with Some show ?thesis
      by (simp add: spread_def map_of_fold_setProperty set_objectKeys ownGet_def)
  qed
qed

lemma propertyOf_cong: "map_of a = map_of b \<Longrightarrow> propertyOf a k = propertyOf b k"
  by (simp add: propertyOf_def)

lemma fold_unchanged:
  "\<forall>k \<in> set keys. deepCompare (propertyOf old k) (propertyOf new k) \<Longrightarrow>
   fold (\<lambda>key ch. if deepCompare (propertyOf old key) (propertyOf new key) then ch
                   else assign ch key (propertyOf new key)) keys ch = ch"
  by (induction keys arbitrary: ch) auto

lemma getChangedFields_spread: "getChangedFields (spread new) new = None"
proof -
  have "deepCompare (propertyOf (spread new) k) (propertyOf new k)" for k
    using propertyOf_cong [OF map_of_spread, of new k] by (simp add: deepCompare_refl)
  then have "fold (\<lambda>key ch. if deepCompare (propertyOf (spread new) key) (propertyOf new key) then ch
                   else assign ch key (propertyOf new key)) keys ch = ch" for keys ch
    by (intro fold_unchanged) simp
  then show ?thesis
    by (simp only: getChangedFields_def Let_def) (simp add: objectKeys_def)
qed




lemma cachedState_frame [simp]:
  "cachedState (addClientLog c m s) = cachedState s"
  "cachedState (broadcastToBrowsers ev s) = cachedState s"
  "cachedState (updateStatus c f v s) = cachedState s"
  "cachedState (s\<lparr>clientNames := n\<rparr>) = cachedState s"
  by (simp_all add: cachedState_def addClientLog_def broadcastToBrowsers_def updateStatus_def fun_eq_iff)

lemma statusBroadcasts_frame [simp]:
  "statusBroadcasts (addClientLog c m s) = statusBroadcasts s"
  "statusBroadcasts (updateStatus c f v s) = statusBroadcasts s"
  "statusBroadcasts (broadcastToBrowsers ev s) = statusBroadcasts s @ (if isStatusUpdateJson ev then [ev] else [])"
  "statusBroadcasts (s\<lparr>clientNames := n\<rparr>) = statusBroadcasts s"
  "statusBroadcasts (s\<lparr>clientStateCache := c'\<rparr>) = statusBroadcasts s"
  by (simp_all add: statusBroadcasts_def addClientLog_def broadcastToBrowsers_def updateStatus_def)

lemma clientNames_frame [simp]:
  "clientNames (addClientLog c m s) = clientNames s"
  "clientNames (updateStatus c f v s) = clientNames s"
  "clientNames (broadcastToBrowsers ev s) = clientNames s"
  by (simp_all add: addClientLog_def broadcastToBrowsers_def updateStatus_def)

lemma clientStateCache_frame [simp]:
  "clientStateCache (addClientLog c m s) = clientStateCache s"
  "clientStateCache (updateStatus c f v s) = clientStateCache s"
  "clientStateCache (broadcastToBrowsers ev s) = clientStateCache s"
  by (simp_all add: addClientLog_def broadcastToBrowsers_def updateStatus_def)

lemma handleStatusUpdate_unchanged:
  "getChangedFields (cachedState s cid) new = None \<Longrightarrow>
   handleStatusUpdate e cid (Some new) ts s = addClientLog cid ''[Status update - no changes detected]'' s"
  by (simp add: handleStatusUpdate_def cachedState_def)

lemma handleStatusUpdate_changed:
  assumes "getChangedFields (cachedState s cid) new = Some ch"
  shows "clientStateCache (handleStatusUpdate e cid (Some new) ts s) = (clientStateCache s)(cid \<mapsto> spread new)"
    and "clientNames (handleStatusUpdate e cid (Some new) ts s) = clientNames s"
    and "statusBroadcasts (handleStatusUpdate e cid (Some new) ts s)
           = statusBroadcasts s @ [StatusUpdateJson cid new (chOwn ch)
               (if truthy ts then ts else JStr (isoTime e)) (isoTime e)]"
  using assms
  by (simp_all add: handleStatusUpdate_def cachedState_def Let_def)

lemma handleStatusUpdate_names:
  "clientNames (handleStatusUpdate e cid st ts s) = clientNames s"
  by (cases st; cases "getChangedFields (cachedState s cid) (the st)")
     (simp_all add: handleStatusUpdate_def cachedState_def Let_def)

lemma handleStatusUpdate_settled:
  "getChangedFields (cachedState (handleStatusUpdate e cid (Some new) ts s) cid) new = None"
proof (cases "getChangedFields (cachedState s cid) new")
  case None
  then show ?thesis
    by (simp add: handleStatusUpdate_unchanged)
next
  case (Some ch)
  have "cachedState (handleStatusUpdate e cid (Some new) ts s) cid = spread new"
    using handleStatusUpdate_changed(1) [OF Some, of e ts] by (simp add: cachedState_def)
  then show ?thesis
    by (simp add: getChangedFields_spread)
qed

lemma updateClientName_frame [simp]:
  "cachedState (updateClientName cid n s) = cachedState s"
  "statusBroadcasts (updateClientName cid n s) = statusBroadcasts s"
  by (simp_all add: updateClientName_def)

lemma strictEq_primitive: "typeof v \<noteq> TObject \<Longrightarrow> strictEq v v"
  by (cases v) simp_all

lemma updateClientName_again:
  assumes "typeof n \<noteq> TObject" and "clientNames s' = clientNames (updateClientName cid n s)"
  shows "updateClientName cid n s' = s'"
proof -
  have "displayName s' cid = displayName (updateClientName cid n s) cid"
    using assms(2) by (simp add: displayName_def)
  moreover have "truthy n \<Longrightarrow> strictEq n (displayName (updateClientName cid n s) cid)"
    using strictEq_primitive [OF assms(1)]
    by (simp add: updateClientName_def displayName_def broadcastToBrowsers_def)
  ultimately show ?thesis
    by (auto simp: updateClientName_def)
qed


lemma objectKeys_Nil [simp]:
  "objectKeys [] = []"
  by (simp add: objectKeys_def)

text \<open>
  Claim C6, as the code has it. When the same \<open>status_update\<close> message is delivered
  twice in succession, neither delivery throws and the second publishes no
  \<open>status_update_json\<close>: after the update of the display name that opens every
  delivery, all it does is \<open>addClientLog\<close> of the line
  \<open>[Status update - no changes detected]\<close>, which appends to the client's ring and
  publishes that line as a \<open>log\<close> event. The two deliveries together publish one
  \<open>status_update_json\<close> when the status differs from the cached state on some key, and
  none when it does not. The display name is not touched by the second delivery unless the
  message carries a \<open>clientName\<close> that is an array or an object.
\<close>

theorem repeated_status_update:
  assumes "msgType m = JStr ''status_update''" and "msgStatus m = Some new"
  shows "fst (processJsonMessage e1 cid m s) = None
       \<and> processJsonMessage e2 cid m (snd (processJsonMessage e1 cid m s))
           = (None, addClientLog cid ''[Status update - no changes detected]''
                      (updateClientName cid (msgClientName m) (snd (processJsonMessage e1 cid m s))))
       \<and> statusBroadcasts (snd (processJsonMessage e2 cid m (snd (processJsonMessage e1 cid m s))))
           = statusBroadcasts s @
               (case getChangedFields (cachedState s cid) new of
                  None \<Rightarrow> []
                | Some ch \<Rightarrow>
                    [StatusUpdateJson cid new (chOwn ch)
                       (if truthy (msgTimestamp m) then msgTimestamp m else JStr (isoTime e1))
                       (isoTime e1)])
       \<and> (typeof (msgClientName m) \<noteq> TObject \<longrightarrow>
            updateClientName cid (msgClientName m) (snd (processJsonMessage e1 cid m s))
              = snd (processJsonMessage e1 cid m s))"
proof -
  let ?n = "msgClientName m"
  let ?ts = "msgTimestamp m"
  let ?s1 = "handleStatusUpdate e1 cid (Some new) ?ts (updateClientName cid ?n s)"
  have p: "processJsonMessage e cid m s' = (None, handleStatusUpdate e cid (Some new) ?ts (updateClientName cid ?n s'))"
    for e s'
    using assms by (simp add: processJsonMessage_def updateClientName_def Let_def)
  have settled: "getChangedFields (cachedState (updateClientName cid ?n ?s1) cid) new = None"
    by (simp add: handleStatusUpdate_settled)
  have second: "processJsonMessage e2 cid m ?s1
      = (None, addClientLog cid ''[Status update - no changes detected]'' (updateClientName cid ?n ?s1))"
    by (simp only: p handleStatusUpdate_unchanged [OF settled])
  have first: "statusBroadcasts ?s1
           = statusBroadcasts s @
               (case getChangedFields (cachedState s cid) new of
                  None \<Rightarrow> []
                | Some ch \<Rightarrow>
                    [StatusUpdateJson cid new (chOwn ch)
                       (if truthy ?ts then ?ts else JStr (isoTime e1))
                       (isoTime e1)])"
  proof (cases "getChangedFields (cachedState s cid) new")
    case None
    then show ?thesis
      using handleStatusUpdate_unchanged [of "updateClientName cid ?n s" cid new e1 ?ts]
      by simp
  next
    case (Some ch)
    then show ?thesis
      using handleStatusUpdate_changed(3) [of "updateClientName cid ?n s" cid new ch e1 ?ts]
      by simp
  qed
  have again: "updateClientName cid ?n ?s1 = ?s1" if "typeof ?n \<noteq> TObject"
    using that by (rule updateClientName_again) (simp add: handleStatusUpdate_names)
  from second first again show ?thesis
    by (simp add: p)
qed

theorem repeated_status_update_witness:
  "msgType (statusUpdate loadedOnly) = JStr ''status_update''
   \<and> msgStatus (statusUpdate loadedOnly) = Some loadedOnly
   \<and> typeof (msgClientName (statusUpdate loadedOnly)) \<noteq> TObject
   \<and> statusBroadcasts (snd (processJsonMessage (at 2000) exampleId (statusUpdate loadedOnly)
         (snd (processJsonMessage (at 1000) exampleId (statusUpdate loadedOnly) authenticatedServer))))
       = [StatusUpdateJson exampleId loadedOnly loadedOnly
            (JStr ''2026-01-01T00:00:00.000Z'') ''2026-01-01T00:00:00.000Z'']"
proof -
  have g: "getChangedFields (cachedState authenticatedServer exampleId) loadedOnly
         = Some \<lparr>chOwn = loadedOnly, chProto = ObjectPrototype\<rparr>"
    by (simp add: getChangedFields_def cachedState_def authenticatedServer_def awaitingServer_def
        initialServer_def loadedOnly_def objectKeys_def propertyOf_def deepCompare_prim
        objectPrototypeFunctions_def assign_def setProperty_def isArrayIndex_def)
  have b: "statusBroadcasts authenticatedServer = []"
    by (simp add: statusBroadcasts_def authenticatedServer_def awaitingServer_def initialServer_def)
  have h1: "msgType (statusUpdate loadedOnly) = JStr ''status_update''"
    and h2: "msgStatus (statusUpdate loadedOnly) = Some loadedOnly"
    and h3: "typeof (msgClientName (statusUpdate loadedOnly)) \<noteq> TObject"
    by (simp_all add: statusUpdate_def)
  note t = repeated_status_update [OF h1 h2, of "at 1000" exampleId authenticatedServer "at 2000"]
  from t have "statusBroadcasts (snd (processJsonMessage (at 2000) exampleId (statusUpdate loadedOnly)
         (snd (processJsonMessage (at 1000) exampleId (statusUpdate loadedOnly) authenticatedServer))))
       = statusBroadcasts authenticatedServer @
           (case getChangedFields (cachedState authenticatedServer exampleId) loadedOnly of
              None \<Rightarrow> []
            | Some ch \<Rightarrow>
                [StatusUpdateJson exampleId loadedOnly (chOwn ch)
                   (if truthy (msgTimestamp (statusUpdate loadedOnly))
                    then msgTimestamp (statusUpdate loadedOnly) else JStr (isoTime (at 1000)))
                   (isoTime (at 1000))])"
    by (rule conjunct2 [THEN conjunct2, THEN conjunct1])
  also have "\<dots> = [StatusUpdateJson exampleId loadedOnly loadedOnly
            (JStr ''2026-01-01T00:00:00.000Z'') ''2026-01-01T00:00:00.000Z'']"
    by (simp add: g b) (simp add: statusUpdate_def at_def)
  finally show ?thesis
    using h1 h2 h3 by simp
qed

text \<open>
  Claim C6 as stated fails: the cache already holds \<open>{loaded: true}\<close>, and that same
  status is delivered twice. No \<open>status_update_json\<close> is published, not one; and each
  delivery does publish something, the \<open>log\<close> event of its log line.
\<close>

theorem repeated_status_update_no_broadcast:
  "statusBroadcasts (snd (processJsonMessage (at 2000) exampleId (statusUpdate loadedOnly)
     (snd (processJsonMessage (at 1000) exampleId (statusUpdate loadedOnly)
        (authenticatedServer\<lparr>clientStateCache := [exampleId \<mapsto> loadedOnly]\<rparr>))))) = []
   \<and> published (snd (processJsonMessage (at 2000) exampleId (statusUpdate loadedOnly)
     (snd (processJsonMessage (at 1000) exampleId (statusUpdate loadedOnly)
        (authenticatedServer\<lparr>clientStateCache := [exampleId \<mapsto> loadedOnly]\<rparr>)))))
     = [LogEvent exampleId ''[Status update - no changes detected]'',
        LogEvent exampleId ''[Status update - no changes detected]'']"
proof -
  have g: "getChangedFields loadedOnly loadedOnly = None"
    by (simp add: getChangedFields_def loadedOnly_def objectKeys_def propertyOf_def deepCompare_prim)
  show ?thesis
    by (simp add: processJsonMessage_def statusUpdate_def handleStatusUpdate_def g
        statusBroadcasts_def addClientLog_def broadcastToBrowsers_def authenticatedServer_def
        awaitingServer_def initialServer_def)
qed




subsection \<open>The username checker\<close>

lemma addClientLog_frame [simp]:
  "sockets (addClientLog c m s) = sockets s"
  "clientUsernameStatus (addClientLog c m s) = clientUsernameStatus s"
  "pendingHandshakes (addClientLog c m s) = pendingHandshakes s"
  "tcpClients (addClientLog c m s) = tcpClients s"
  by (simp_all add: addClientLog_def broadcastToBrowsers_def)

lemma updateClientName_polling_frame [simp]:
  "sockets (updateClientName c n s) = sockets s"
  "clientUsernameStatus (updateClientName c n s) = clientUsernameStatus s"
  "pendingHandshakes (updateClientName c n s) = pendingHandshakes s"
  "tcpClients (updateClientName c n s) = tcpClients s"
  by (simp_all add: updateClientName_def broadcastToBrowsers_def)

lemma processJsonMessage_empty_response:
  assumes "isEmptyUsernameResponse m"
  shows "processJsonMessage e cid m s
           = (None, addClientLog cid ''[Username response received but empty]''
                      (updateClientName cid (msgClientName m) s))"
  using assms
  by (simp add: isEmptyUsernameResponse_def processJsonMessage_def handleUsernameResponse_def
      updateClientName_def Let_def)

lemma onDataLine_empty_response:
  assumes "emptyResponseLine parse msg" and "isClientAuthenticated (getClientId (sockets s sid)) s"
  shows "\<exists>s'. onDataLine parse e sid msg s = Inr s' \<and> sockets s' = sockets s
           \<and> clientUsernameStatus s' = clientUsernameStatus s
           \<and> pendingHandshakes s' = pendingHandshakes s"
proof -
  from assms(1) obtain m where m: "parse msg = Some m" "isEmptyUsernameResponse m"
    and p: "\<not> startsWith msg ''$HandshakeResponse:''"
    by (auto simp: emptyResponseLine_def split: option.splits)
  have "onDataLine parse e sid msg s
      = Inr (addClientLog (getClientId (sockets s sid)) ''[Username response received but empty]''
               (updateClientName (getClientId (sockets s sid)) (msgClientName m) s))"
    using assms(2) m p
    by (simp add: onDataLine_def Let_def processJsonMessage_empty_response)
  then show ?thesis
    by simp
qed

lemma onData_empty_responses:
  assumes "list_all (emptyResponseLine parse) msgs"
    and "isClientAuthenticated (getClientId (sockets s sid)) s"
  shows "\<exists>s'. onData parse e sid msgs s = Inr s' \<and> sockets s' = sockets s
           \<and> clientUsernameStatus s' = clientUsernameStatus s
           \<and> pendingHandshakes s' = pendingHandshakes s"
  using assms
proof (induction msgs arbitrary: s)
  case Nil
  then show ?case by simp
next
  case (Cons msg msgs)
  from Cons.prems have l: "emptyResponseLine parse msg" and r: "list_all (emptyResponseLine parse) msgs"
    by simp_all
  from onDataLine_empty_response [OF l Cons.prems(2), of e] obtain s1 where
    s1: "onDataLine parse e sid msg s = Inr s1" "sockets s1 = sockets s"
      "clientUsernameStatus s1 = clientUsernameStatus s" "pendingHandshakes s1 = pendingHandshakes s"
    by blast
  have "isClientAuthenticated (getClientId (sockets s1 sid)) s1"
    using Cons.prems(2) s1 by (simp add: isClientAuthenticated_def)
  from Cons.IH [OF r this] obtain s' where
    "onData parse e sid msgs s1 = Inr s'" "sockets s' = sockets s1"
    "clientUsernameStatus s' = clientUsernameStatus s1" "pendingHandshakes s' = pendingHandshakes s1"
    by blast
  with s1 show ?case
    by simp
qed

lemma tick_waiting:
  "clientUsernameStatus s cid = Some u \<Longrightarrow> requestSent u \<Longrightarrow> \<not> hasUsername u \<Longrightarrow>
   usernameCheckerTick e cid s = s"
  by (simp add: usernameCheckerTick_def)

text \<open>Once a request has gone out and while no username has arrived, ticks and empty
  responses change neither the socket nor the username status of the client: no tick
  writes another request.\<close>

lemma waiting_forever:
  assumes "\<forall>ev \<in> set evs. pollingEvent parse sid cid ev"
    and "getClientId (sockets s sid) = cid" and "isClientAuthenticated cid s"
    and "clientUsernameStatus s cid = Some u" and "requestSent u" and "\<not> hasUsername u"
  shows "\<exists>s'. run parse evs s = Inr s' \<and> sockets s' = sockets s
           \<and> clientUsernameStatus s' cid = Some u"
  using assms
proof (induction evs arbitrary: s)
  case Nil
  then show ?case by simp
next
  case (Cons ev evs)
  obtain e i where ev: "ev = (e, i)"
    by (cases ev)
  from Cons.prems(1) ev have pe: "pollingEvent parse sid cid (e, i)"
    by simp
  have "\<exists>s1. step parse e i s = Inr s1 \<and> sockets s1 = sockets s
          \<and> clientUsernameStatus s1 cid = Some u \<and> pendingHandshakes s1 = pendingHandshakes s"
  proof (cases i)
    case (Data sd msgs)
    with pe have sd: "sd = sid" and l: "list_all (emptyResponseLine parse) msgs"
      by simp_all
    from Cons.prems(2,3) have "isClientAuthenticated (getClientId (sockets s sid)) s"
      by simp
    from onData_empty_responses [OF l this, of e] Data sd Cons.prems(4) show ?thesis
      by (auto simp: step_def)
  next
    case (UsernameTick c)
    with pe have "c = cid"
      by simp
    with UsernameTick Cons.prems(4,5,6) show ?thesis
      by (simp add: step_def tick_waiting)
  qed (use pe in simp_all)
  then obtain s1 where s1: "step parse e i s = Inr s1" "sockets s1 = sockets s"
    "clientUsernameStatus s1 cid = Some u" "pendingHandshakes s1 = pendingHandshakes s"
    by blast
  have a: "getClientId (sockets s1 sid) = cid" "isClientAuthenticated cid s1"
    using Cons.prems(2,3) s1 by (simp_all add: isClientAuthenticated_def)
  from Cons.prems(1) have "\<forall>ev \<in> set evs. pollingEvent parse sid cid ev"
    by simp
  from Cons.IH [OF this a s1(3) Cons.prems(5,6)] obtain s' where
    "run parse evs s1 = Inr s'" "sockets s' = sockets s1" "clientUsernameStatus s' cid = Some u"
    by blast
  with s1 ev show ?case
    by simp
qed

lemma first_tick:
  assumes "clientUsernameStatus s cid = Some u" and "checker u" and "\<not> hasUsername u"
    and "\<not> requestSent u" and "isClientAuthenticated cid s" and "map_of (tcpClients s) cid = Some sid"
    and "\<not> destroyed (sockets s sid)"
  shows "sockets (usernameCheckerTick e cid s)
           = (sockets s)(sid := (sockets s sid)
                \<lparr>written := written (sockets s sid) @ [usernameRequest e @ [CHR 0x0A]]\<rparr>)"
    and "clientUsernameStatus (usernameCheckerTick e cid s) cid = Some (u\<lparr>requestSent := True\<rparr>)"
    and "pendingHandshakes (usernameCheckerTick e cid s) = pendingHandshakes s"
  using assms
  by (simp_all add: usernameCheckerTick_def sendUsernameRequest_def addClientLog_def
      broadcastToBrowsers_def socketWrite_def)

text \<open>The first tick of a running checker writes the request; whatever ticks and empty
  responses follow, that request stays the only one.\<close>

lemma one_request:
  assumes "clientUsernameStatus s cid = Some u" and "checker u" and "\<not> hasUsername u"
    and "\<not> requestSent u" and "isClientAuthenticated cid s" and "map_of (tcpClients s) cid = Some sid"
    and "\<not> destroyed (sockets s sid)" and "getClientId (sockets s sid) = cid"
    and "\<forall>ev \<in> set evs. pollingEvent parse sid cid ev"
  shows "\<exists>s'. run parse ((e, UsernameTick cid) # evs) s = Inr s'
           \<and> written (sockets s' sid) = written (sockets s sid) @ [usernameRequest e @ [CHR 0x0A]]
           \<and> clientUsernameStatus s' cid = Some (u\<lparr>requestSent := True\<rparr>)"
proof -
  let ?s1 = "usernameCheckerTick e cid s"
  note t = first_tick [OF assms(1-7), of e]
  have i: "getClientId (sockets ?s1 sid) = cid"
    using assms(8) by (simp add: t(1) getClientId_def)
  have a: "isClientAuthenticated cid ?s1"
    using assms(5) by (simp add: isClientAuthenticated_def t(3))
  have "requestSent (u\<lparr>requestSent := True\<rparr>)" and "\<not> hasUsername (u\<lparr>requestSent := True\<rparr>)"
    using assms(3) by simp_all
  from waiting_forever [OF assms(9) i a t(2) this] obtain s' where
    "run parse evs ?s1 = Inr s'" "sockets s' = sockets ?s1"
    "clientUsernameStatus s' cid = Some (u\<lparr>requestSent := True\<rparr>)"
    by blast
  then show ?thesis
    by (simp add: step_def t(1))
qed

lemma tick_has_username:
  "clientUsernameStatus s cid = Some u \<Longrightarrow> hasUsername u \<Longrightarrow>
   sockets (usernameCheckerTick e cid s) = sockets s
   \<and> clientNames (usernameCheckerTick e cid s) = clientNames s
   \<and> clientUsernameStatus (usernameCheckerTick e cid s) cid = Some (u\<lparr>checker := False\<rparr>)"
  by (simp add: usernameCheckerTick_def addClientLog_def broadcastToBrowsers_def)

lemma ticks_after_username:
  assumes "clientUsernameStatus s cid = Some u" and "hasUsername u"
  shows "\<exists>s'. run parse (map (\<lambda>e. (e, UsernameTick cid)) ticks) s = Inr s'
           \<and> sockets s' = sockets s \<and> clientNames s' = clientNames s
           \<and> clientUsernameStatus s' cid = Some (if ticks = [] then u else u\<lparr>checker := False\<rparr>)"
  using assms
proof (induction ticks arbitrary: s u)
  case Nil
  then show ?case by simp
next
  case (Cons e ticks)
  from tick_has_username [OF Cons.prems, of e]
  have t: "sockets (usernameCheckerTick e cid s) = sockets s"
    "clientNames (usernameCheckerTick e cid s) = clientNames s"
    "clientUsernameStatus (usernameCheckerTick e cid s) cid = Some (u\<lparr>checker := False\<rparr>)"
    by simp_all
  have "hasUsername (u\<lparr>checker := False\<rparr>)"
    using Cons.prems(2) by simp
  from Cons.IH [OF t(3) this] obtain s' where
    "run parse (map (\<lambda>e. (e, UsernameTick cid)) ticks) (usernameCheckerTick e cid s) = Inr s'"
    "sockets s' = sockets (usernameCheckerTick e cid s)"
    "clientNames s' = clientNames (usernameCheckerTick e cid s)"
    "clientUsernameStatus s' cid
       = Some (if ticks = [] then u\<lparr>checker := False\<rparr> else u\<lparr>checker := False, checker := False\<rparr>)"
    by blast
  with t show ?case
    by (simp add: step_def)
qed

lemma username_arrives:
  assumes "clientUsernameStatus s cid = Some u"
    and "getClientId (sockets s sid) = cid" and "isClientAuthenticated cid s"
    and "\<not> startsWith line ''$HandshakeResponse:''" and "parse line = Some m"
    and "msgType m = JStr ''username_response''" and "msgUsername m = JStr name" and "name \<noteq> []"
    and "\<not> truthy (msgClientName m)" and "toStringJS (displayName s cid) = Inr old"
  shows "\<exists>s1. onDataLine parse e sid line s = Inr s1
           \<and> clientNames s1 cid = Some (JStr name)
           \<and> clientUsernameStatus s1 cid = Some (u\<lparr>hasUsername := True\<rparr>)
           \<and> sockets s1 = sockets s
           \<and> filter isUpdateTabName (published s1)
               = filter isUpdateTabName (published s)
                   @ (if displayName s cid = JStr name then [] else [UpdateTabName cid (JStr name)])"
proof -
  have eq: "strictEq (displayName s cid) (JStr name) \<longleftrightarrow> displayName s cid = JStr name"
    by (cases "displayName s cid") simp_all
  show ?thesis
    using assms
    by (simp add: onDataLine_def Let_def processJsonMessage_def handleUsernameResponse_def eq
        addClientLog_def broadcastToBrowsers_def)
qed

text \<open>
  Claim C9, as the code has it. For an authenticated client whose username status says
  that no username has arrived: (1) once a request has been sent, no tick of the checker
  writes another one, whatever number of ticks and of responses with a missing or falsy
  username follow: these leave the socket and the username status as they are; (2) when
  the checker runs and no request has been sent, its next tick writes one request to the
  client's socket and records that it was sent, and through every sequence of ticks and
  empty responses after it that request stays the only thing written; (3) a
  \<open>username_response\<close> with a non-empty string as username makes that string the
  display name and sets \<open>hasUsername\<close>, publishes \<open>update_tab_name\<close> when the name
  differs from the display name before and not otherwise, and the ticks after it write
  nothing to the socket and leave the name alone, the first of them stopping the checker.
\<close>

theorem username_polling:
  assumes "clientUsernameStatus s cid = Some u" and "\<not> hasUsername u"
    and "getClientId (sockets s sid) = cid" and "isClientAuthenticated cid s"
  shows "(requestSent u \<and> (\<forall>ev \<in> set evs. pollingEvent parse sid cid ev) \<longrightarrow>
            (\<exists>s'. run parse evs s = Inr s' \<and> sockets s' = sockets s
               \<and> clientUsernameStatus s' cid = Some u))
       \<and> (checker u \<and> \<not> requestSent u \<and> map_of (tcpClients s) cid = Some sid
            \<and> \<not> destroyed (sockets s sid) \<and> (\<forall>ev \<in> set evs. pollingEvent parse sid cid ev) \<longrightarrow>
            (\<exists>s'. run parse ((e, UsernameTick cid) # evs) s = Inr s'
               \<and> written (sockets s' sid) = written (sockets s sid) @ [usernameRequest e @ [CHR 0x0A]]
               \<and> clientUsernameStatus s' cid = Some (u\<lparr>requestSent := True\<rparr>)))
       \<and> (\<not> startsWith line ''$HandshakeResponse:'' \<and> parse line = Some m
            \<and> msgType m = JStr ''username_response'' \<and> msgUsername m = JStr name \<and> name \<noteq> []
            \<and> \<not> truthy (msgClientName m) \<and> toStringJS (displayName s cid) = Inr old \<longrightarrow>
            (\<exists>s1 s2. onDataLine parse e sid line s = Inr s1
               \<and> clientNames s1 cid = Some (JStr name)
               \<and> clientUsernameStatus s1 cid = Some (u\<lparr>hasUsername := True\<rparr>)
               \<and> sockets s1 = sockets s
               \<and> filter isUpdateTabName (published s1)
                   = filter isUpdateTabName (published s)
                       @ (if displayName s cid = JStr name then [] else [UpdateTabName cid (JStr name)])
               \<and> run parse (map (\<lambda>e'. (e', UsernameTick cid)) ticks) s1 = Inr s2
               \<and> sockets s2 = sockets s
               \<and> clientNames s2 cid = Some (JStr name)
               \<and> clientUsernameStatus s2 cid
                   = Some (if ticks = [] then u\<lparr>hasUsername := True\<rparr>
                           else u\<lparr>hasUsername := True, checker := False\<rparr>)))"
proof (intro conjI impI)
  assume a: "requestSent u \<and> (\<forall>ev \<in> set evs. pollingEvent parse sid cid ev)"
  then have r: "requestSent u" and p: "\<forall>ev \<in> set evs. pollingEvent parse sid cid ev"
    by simp_all
  from waiting_forever [OF p assms(3,4,1) r assms(2)]
  show "\<exists>s'. run parse evs s = Inr s' \<and> sockets s' = sockets s
          \<and> clientUsernameStatus s' cid = Some u" .
next
  assume b: "checker u \<and> \<not> requestSent u \<and> map_of (tcpClients s) cid = Some sid
     \<and> \<not> destroyed (sockets s sid) \<and> (\<forall>ev \<in> set evs. pollingEvent parse sid cid ev)"
  then have b': "checker u" "\<not> requestSent u" "map_of (tcpClients s) cid = Some sid"
    "\<not> destroyed (sockets s sid)" "\<forall>ev \<in> set evs. pollingEvent parse sid cid ev"
    by simp_all
  from one_request [OF assms(1) b'(1) assms(2) b'(2) assms(4) b'(3,4) assms(3) b'(5), of e]
  show "\<exists>s'. run parse ((e, UsernameTick cid) # evs) s = Inr s'
          \<and> written (sockets s' sid) = written (sockets s sid) @ [usernameRequest e @ [CHR 0x0A]]
          \<and> clientUsernameStatus s' cid = Some (u\<lparr>requestSent := True\<rparr>)" .
next
  assume c: "\<not> startsWith line ''$HandshakeResponse:'' \<and> parse line = Some m
     \<and> msgType m = JStr ''username_response'' \<and> msgUsername m = JStr name \<and> name \<noteq> []
     \<and> \<not> truthy (msgClientName m) \<and> toStringJS (displayName s cid) = Inr old"
  then have c': "\<not> startsWith line ''$HandshakeResponse:''" "parse line = Some m"
    "msgType m = JStr ''username_response''" "msgUsername m = JStr name" "name \<noteq> []"
    "\<not> truthy (msgClientName m)" "toStringJS (displayName s cid) = Inr old"
    by simp_all
  from username_arrives [where parse = parse and line = line, OF assms(1,3,4) c', of e] obtain s1 where
    s1: "onDataLine parse e sid line s = Inr s1" "clientNames s1 cid = Some (JStr name)"
      "clientUsernameStatus s1 cid = Some (u\<lparr>hasUsername := True\<rparr>)" "sockets s1 = sockets s"
      "filter isUpdateTabName (published s1)
         = filter isUpdateTabName (published s)
             @ (if displayName s cid = JStr name then [] else [UpdateTabName cid (JStr name)])"
    by blast
  have "hasUsername (u\<lparr>hasUsername := True\<rparr>)"
    by simp
  from ticks_after_username [OF s1(3) this, of parse ticks] obtain s2 where
    s2: "run parse (map (\<lambda>e'. (e', UsernameTick cid)) ticks) s1 = Inr s2"
      "sockets s2 = sockets s1" "clientNames s2 = clientNames s1"
      "clientUsernameStatus s2 cid
         = Some (if ticks = [] then u\<lparr>hasUsername := True\<rparr>
                 else u\<lparr>hasUsername := True, checker := False\<rparr>)"
    by blast
  from s1 s2 show "\<exists>s1 s2. onDataLine parse e sid line s = Inr s1
               \<and> clientNames s1 cid = Some (JStr name)
               \<and> clientUsernameStatus s1 cid = Some (u\<lparr>hasUsername := True\<rparr>)
               \<and> sockets s1 = sockets s
               \<and> filter isUpdateTabName (published s1)
                   = filter isUpdateTabName (published s)
                       @ (if displayName s cid = JStr name then [] else [UpdateTabName cid (JStr name)])
               \<and> run parse (map (\<lambda>e'. (e', UsernameTick cid)) ticks) s1 = Inr s2
               \<and> sockets s2 = sockets s
               \<and> clientNames s2 cid = Some (JStr name)
               \<and> clientUsernameStatus s2 cid
                   = Some (if ticks = [] then u\<lparr>hasUsername := True\<rparr>
                           else u\<lparr>hasUsername := True, checker := False\<rparr>)"
    by (intro exI [of _ s1] exI [of _ s2]) simp
qed

lemma example_status:
  "clientUsernameStatus authenticatedServer exampleId
     = Some \<lparr>hasUsername = False, requestSent = False, checker = True\<rparr>"
  "clientUsernameStatus waitingServer exampleId
     = Some \<lparr>hasUsername = False, requestSent = True, checker = True\<rparr>"
  "isClientAuthenticated exampleId authenticatedServer"
  "isClientAuthenticated exampleId waitingServer"
  "getClientId (sockets waitingServer 0) = exampleId"
  "map_of (tcpClients authenticatedServer) exampleId = Some 0"
  "\<not> destroyed (sockets authenticatedServer 0)"
  "written (sockets authenticatedServer 0) = []"
  "displayName authenticatedServer exampleId = JStr exampleId"
  by (simp_all add: waitingServer_def authenticatedServer_def awaitingServer_def initialServer_def
      isClientAuthenticated_def displayName_def getClientId_def exampleId_def)

lemma example_lines:
  "\<not> startsWith (responseLine rest) ''$HandshakeResponse:''"
  "exampleParse (responseLine []) = Some (usernameResponse JUndefined)"
  "exampleParse (responseLine (usernameField ''Alice'')) = Some (usernameResponse (JStr ''Alice''))"
  by (simp_all add: exampleParse_def responseLine_def usernameField_def startsWith_def)

theorem username_polling_witness:
  "clientUsernameStatus authenticatedServer exampleId
     = Some \<lparr>hasUsername = False, requestSent = False, checker = True\<rparr>
   \<and> clientUsernameStatus waitingServer exampleId
     = Some \<lparr>hasUsername = False, requestSent = True, checker = True\<rparr>
   \<and> getClientId (sockets authenticatedServer 0) = exampleId
   \<and> getClientId (sockets waitingServer 0) = exampleId
   \<and> isClientAuthenticated exampleId authenticatedServer
   \<and> isClientAuthenticated exampleId waitingServer
   \<and> (\<exists>s'. run exampleParse
              [(at 2000, UsernameTick exampleId), (at 2500, Data 0 [responseLine []]),
               (at 3000, UsernameTick exampleId)] waitingServer = Inr s'
          \<and> sockets s' = sockets waitingServer
          \<and> clientUsernameStatus s' exampleId
              = Some \<lparr>hasUsername = False, requestSent = True, checker = True\<rparr>)
   \<and> (\<exists>s'. run exampleParse
              [(at 1000, UsernameTick exampleId),
               (at 2000, UsernameTick exampleId), (at 2500, Data 0 [responseLine []]),
               (at 3000, UsernameTick exampleId)] authenticatedServer = Inr s'
          \<and> written (sockets s' 0) = [usernameRequest (at 1000) @ [CHR 0x0A]])
   \<and> (\<exists>s1 s2. onDataLine exampleParse (at 1500) 0 (responseLine (usernameField ''Alice''))
                authenticatedServer = Inr s1
          \<and> clientNames s1 exampleId = Some (JStr ''Alice'')
          \<and> filter isUpdateTabName (published s1) = [UpdateTabName exampleId (JStr ''Alice'')]
          \<and> run exampleParse [(at 2000, UsernameTick exampleId), (at 3000, UsernameTick exampleId)] s1
              = Inr s2
          \<and> sockets s2 = sockets authenticatedServer
          \<and> clientNames s2 exampleId = Some (JStr ''Alice''))"
proof -
  let ?u = "\<lparr>hasUsername = False, requestSent = False, checker = True\<rparr>"
  let ?w = "\<lparr>hasUsername = False, requestSent = True, checker = True\<rparr>"
  let ?evs = "[(at 2000, UsernameTick exampleId), (at 2500, Data 0 [responseLine []]),
               (at 3000, UsernameTick exampleId)]"
  let ?alice = "responseLine (usernameField ''Alice'')"
  have nu: "\<not> hasUsername ?u" and nw: "\<not> hasUsername ?w"
    by simp_all
  have id: "getClientId (sockets authenticatedServer 0) = exampleId"
    by simp
  note w = username_polling [OF example_status(2) nw example_status(5) example_status(4),
      where evs = ?evs and parse = exampleParse]
  have "requestSent ?w \<and> (\<forall>ev \<in> set ?evs. pollingEvent exampleParse 0 exampleId ev)"
    by (simp add: emptyResponseLine_def example_lines isEmptyUsernameResponse_def usernameResponse_def)
  with w have a: "\<exists>s'. run exampleParse ?evs waitingServer = Inr s'
          \<and> sockets s' = sockets waitingServer
          \<and> clientUsernameStatus s' exampleId = Some ?w"
    by blast
  note tb = username_polling [OF example_status(1) nu id example_status(3),
      where e = "at 1000" and parse = exampleParse and evs = ?evs]
  have "checker ?u \<and> \<not> requestSent ?u \<and> map_of (tcpClients authenticatedServer) exampleId = Some 0
      \<and> \<not> destroyed (sockets authenticatedServer 0)
      \<and> (\<forall>ev \<in> set ?evs. pollingEvent exampleParse 0 exampleId ev)"
    by (simp add: example_status emptyResponseLine_def example_lines isEmptyUsernameResponse_def
        usernameResponse_def)
  with tb obtain s' where
    "run exampleParse ((at 1000, UsernameTick exampleId) # ?evs) authenticatedServer = Inr s'"
    "written (sockets s' 0)
       = written (sockets authenticatedServer 0) @ [usernameRequest (at 1000) @ [CHR 0x0A]]"
    by blast
  then have b: "\<exists>s'. run exampleParse ((at 1000, UsernameTick exampleId) # ?evs) authenticatedServer = Inr s'
          \<and> written (sockets s' 0) = [usernameRequest (at 1000) @ [CHR 0x0A]]"
    by (simp add: example_status)
  note tc = username_polling [OF example_status(1) nu id example_status(3),
      where parse = exampleParse and line = ?alice and e = "at 1500"
        and m = "usernameResponse (JStr ''Alice'')" and name = "''Alice''" and old = exampleId
        and ticks = "[at 2000, at 3000]"]
  have "\<not> startsWith ?alice ''$HandshakeResponse:''
      \<and> exampleParse ?alice = Some (usernameResponse (JStr ''Alice''))
      \<and> msgType (usernameResponse (JStr ''Alice'')) = JStr ''username_response''
      \<and> msgUsername (usernameResponse (JStr ''Alice'')) = JStr ''Alice'' \<and> ''Alice'' \<noteq> []
      \<and> \<not> truthy (msgClientName (usernameResponse (JStr ''Alice'')))
      \<and> toStringJS (displayName authenticatedServer exampleId) = Inr exampleId"
    by (simp add: example_lines example_status usernameResponse_def)
  with tc obtain s1 s2 where
    r: "onDataLine exampleParse (at 1500) 0 ?alice authenticatedServer = Inr s1"
      "clientNames s1 exampleId = Some (JStr ''Alice'')"
      "filter isUpdateTabName (published s1)
         = filter isUpdateTabName (published authenticatedServer)
             @ (if displayName authenticatedServer exampleId = JStr ''Alice'' then []
                else [UpdateTabName exampleId (JStr ''Alice'')])"
      "run exampleParse (map (\<lambda>e'. (e', UsernameTick exampleId)) [at 2000, at 3000]) s1 = Inr s2"
      "sockets s2 = sockets authenticatedServer"
      "clientNames s2 exampleId = Some (JStr ''Alice'')"
    by blast
  have p: "published authenticatedServer = []"
    by (simp add: authenticatedServer_def awaitingServer_def initialServer_def)
  have d: "displayName authenticatedServer exampleId \<noteq> JStr ''Alice''"
    by (simp only: example_status(9)) (simp add: exampleId_def)
  from r(3) d have r3: "filter isUpdateTabName (published s1) = [UpdateTabName exampleId (JStr ''Alice'')]"
    by (simp add: p)
  from r(4) have r4: "run exampleParse [(at 2000, UsernameTick exampleId), (at 3000, UsernameTick exampleId)] s1
      = Inr s2"
    by simp
  from r(1,2) r3 r4 r(5,6) have c: "\<exists>s1 s2. onDataLine exampleParse (at 1500) 0 ?alice authenticatedServer = Inr s1
          \<and> clientNames s1 exampleId = Some (JStr ''Alice'')
          \<and> filter isUpdateTabName (published s1) = [UpdateTabName exampleId (JStr ''Alice'')]
          \<and> run exampleParse [(at 2000, UsernameTick exampleId), (at 3000, UsernameTick exampleId)] s1
              = Inr s2
          \<and> sockets s2 = sockets authenticatedServer
          \<and> clientNames s2 exampleId = Some (JStr ''Alice'')"
    by blast
  from example_status(1,2) id example_status(5,3,4) a b c show ?thesis
    by (intro conjI)
qed

text \<open>
  Claim C9 as stated fails: the client answers the first request with a response that
  has no username, and a later one with the empty username. Four more ticks pass; the only
  request the server ever writes is the one of the first tick, and \<open>hasUsername\<close> stays
  false.
\<close>

theorem username_requests_stop_after_empty_response:
  "(case run exampleParse
           [(at 1000, UsernameTick exampleId),
            (at 1500, Data 0 [responseLine []]),
            (at 2000, UsernameTick exampleId),
            (at 2500, Data 0 [responseLine (usernameField [])]),
            (at 3000, UsernameTick exampleId),
            (at 4000, UsernameTick exampleId),
            (at 5000, UsernameTick exampleId)]
           authenticatedServer of
      Inl err \<Rightarrow> False
    | Inr s \<Rightarrow>
        written (sockets s 0) = [usernameRequest (at 1000) @ [CHR 0x0A]]
        \<and> clientUsernameStatus s exampleId
            = Some \<lparr>hasUsername = False, requestSent = True, checker = True\<rparr>)"
  by (simp add: step_def onDataLine_def usernameCheckerTick_def sendUsernameRequest_def
      processJsonMessage_def handleUsernameResponse_def usernameResponse_def exampleParse_def
      responseLine_def usernameField_def startsWith_def displayName_def
      addClientLog_def broadcastToBrowsers_def socketWrite_def isClientAuthenticated_def
      authenticatedServer_def awaitingServer_def initialServer_def getClientId_def exampleId_def
      Let_def)

subsection \<open>Eviction of a client that never answers the challenge\<close>

text \<open>
  Claim C3 fails in the code: a client connects and sends nothing. Ten seconds later its
  handshake timer fires, which evicts it and publishes \<open>client_disconnect\<close>; the socket
  that the timer destroyed then emits \<open>close\<close>, and the close handler publishes
  \<open>client_disconnect\<close> for the same id once more. The handshake sweep finds nothing
  left to do. The client is evicted in time, but observers see two
  \<open>client_disconnect\<close> events for it.
\<close>

theorem handshake_timeout_disconnects_twice:
  "(case run (\<lambda>l. None)
           [(at 0, Connect 0 ''10.0.0.5'' ''4242'' ''c0ffee''),
            (at 10000, HandshakeTimer 0)]
           (initialServer ''secret'') of
      Inl err \<Rightarrow> False
    | Inr s \<Rightarrow> evicted 0 exampleId s \<and> clientLogs s exampleId = None)
   \<and> (case run (\<lambda>l. None)
           [(at 0, Connect 0 ''10.0.0.5'' ''4242'' ''c0ffee''),
            (at 10000, HandshakeTimer 0),
            (at 10001, Close 0),
            (at 15000, HandshakeSweepTick)]
           (initialServer ''secret'') of
      Inl err \<Rightarrow> False
    | Inr s \<Rightarrow>
        published s =
          [LogEvent exampleId ''[Client 10.0.0.5:4242 connected - awaiting handshake]'',
           MasterLogEvent ''[00:00:00] Client connected: 10.0.0.5:4242 - initiating handshake'',
           ClientConnect exampleId (JStr exampleId),
           MasterLogEvent ''[00:00:00] Handshake challenge sent to 10.0.0.5:4242'',
           MasterLogEvent ''[00:00:00] Handshake timeout for 10.0.0.5:4242'',
           ClientDisconnect exampleId,
           LogEvent exampleId ''[Client undefined disconnected]'',
           MasterLogEvent ''[00:00:00] Client disconnected: 10.0.0.5:4242'',
           ClientDisconnect exampleId]
        \<and> filter isClientDisconnect (published s)
            = [ClientDisconnect exampleId, ClientDisconnect exampleId])"
  by (simp add: step_def onConnection_def startHandshake_def handshakeTimeout_def onClose_def
      handshakeCleanup_def cleanupClient_def stopUsernameChecker_def addClientLog_def
      addMasterLog_def masterLogText_def displayName_def js_replace_def startsWith_def
      broadcastToBrowsers_def socketWrite_def socketDestroy_def getClientId_def
      initialServer_def at_def exampleId_def evicted_def pushLog_def MAX_LOGS_def Let_def)

subsection \<open>The display name in the master log\<close>

lemma getSubstitution_plain:
  "CHR ''$'' \<notin> set r \<Longrightarrow> getSubstitution matched before after r = r"
  by (induction matched before after r rule: getSubstitution.induct) auto

lemma indexOf_position:
  "indexOf s p = Some i \<Longrightarrow> take (length p) (drop i s) = p \<and> i \<le> length s"
  by (induction s arbitrary: i) (auto simp: startsWith_def split: if_splits)

lemma indexOf_first:
  "indexOf s p = Some i \<Longrightarrow> j < i \<Longrightarrow> take (length p) (drop j s) \<noteq> p"
proof (induction s arbitrary: i j)
  case Nil
  then show ?case by (simp split: if_splits)
next
  case (Cons c cs)
  then show ?case
    by (cases j) (auto simp: startsWith_def split: if_splits)
qed

text \<open>When the display name is a non-empty string without a dollar sign and the id occurs
  in the message, the entry that \<open>addMasterLog\<close> stores and broadcasts is the bracketed
  time followed by the message with the first occurrence of the id (at index \<open>i\<close>)
  replaced by the name; what follows that occurrence is left as it is.\<close>

theorem master_log_plain_name:
  assumes "clientNames s cid = Some (JStr name)" and "name \<noteq> []" and "cid \<noteq> []"
    and "CHR ''$'' \<notin> set name" and "indexOf msg cid = Some i"
  shows "take (length cid) (drop i msg) = cid
       \<and> (\<forall>j < i. take (length cid) (drop j msg) \<noteq> cid)
       \<and> addMasterLog e msg (Some cid) s
           = Inr (broadcastToBrowsers
                    (MasterLogEvent (''['' @ localTime e @ ''] '' @ take i msg @ name @ drop (i + length cid) msg))
                    (s\<lparr>masterLog := pushLog (masterLog s)
                          (''['' @ localTime e @ ''] '' @ take i msg @ name @ drop (i + length cid) msg)\<rparr>))"
  using assms indexOf_position [of msg cid i] indexOf_first [of msg cid i]
  by (simp add: addMasterLog_def masterLogText_def displayName_def js_replace_def
      getSubstitution_plain)

theorem master_log_plain_name_witness:
  "clientNames (authenticatedServer\<lparr>clientNames := [exampleId \<mapsto> JStr ''Alice'']\<rparr>) exampleId
     = Some (JStr ''Alice'')
   \<and> ''Alice'' \<noteq> [] \<and> exampleId \<noteq> [] \<and> CHR ''$'' \<notin> set ''Alice''
   \<and> indexOf ''Lost 10.0.0.5:4242 (10.0.0.5:4242)'' exampleId = Some 5
   \<and> (\<exists>s'. addMasterLog (at 0) ''Lost 10.0.0.5:4242 (10.0.0.5:4242)'' (Some exampleId)
             (authenticatedServer\<lparr>clientNames := [exampleId \<mapsto> JStr ''Alice'']\<rparr>) = Inr s'
          \<and> masterLog s' = [''[00:00:00] Lost Alice (10.0.0.5:4242)'']
          \<and> last (published s') = MasterLogEvent ''[00:00:00] Lost Alice (10.0.0.5:4242)'')"
proof -
  let ?s = "authenticatedServer\<lparr>clientNames := [exampleId \<mapsto> JStr ''Alice'']\<rparr>"
  let ?msg = "''Lost 10.0.0.5:4242 (10.0.0.5:4242)''"
  have h1: "clientNames ?s exampleId = Some (JStr ''Alice'')"
    by simp
  have h2: "''Alice'' \<noteq> []" and h3: "exampleId \<noteq> []" and h4: "CHR ''$'' \<notin> set ''Alice''"
    by (simp_all add: exampleId_def)
  have h5: "indexOf ?msg exampleId = Some 5"
    by (simp add: exampleId_def startsWith_def)
  have m: "masterLog authenticatedServer = []" and p: "published authenticatedServer = []"
    by (simp_all add: authenticatedServer_def awaitingServer_def initialServer_def)
  note t = master_log_plain_name [OF h1 h2 h3 h4 h5, of "at 0"]
  from t have "addMasterLog (at 0) ?msg (Some exampleId) ?s
           = Inr (broadcastToBrowsers
                    (MasterLogEvent (''['' @ localTime (at 0) @ ''] '' @ take 5 ?msg @ ''Alice''
                       @ drop (5 + length exampleId) ?msg))
                    (?s\<lparr>masterLog := pushLog (masterLog ?s)
                          (''['' @ localTime (at 0) @ ''] '' @ take 5 ?msg @ ''Alice''
                             @ drop (5 + length exampleId) ?msg)\<rparr>))"
    by (rule conjunct2 [THEN conjunct2])
  then have "\<exists>s'. addMasterLog (at 0) ?msg (Some exampleId) ?s = Inr s'
          \<and> masterLog s' = [''[00:00:00] Lost Alice (10.0.0.5:4242)'']
          \<and> last (published s') = MasterLogEvent ''[00:00:00] Lost Alice (10.0.0.5:4242)''"
    by (simp add: broadcastToBrowsers_def m p pushLog_def MAX_LOGS_def at_def exampleId_def)
  with h1 h2 h3 h4 h5 show ?thesis
    by (intro conjI)
qed

text \<open>
  Claim C10 fails in the code. The client names itself \<open>a$$b\<close>, or \<open>$&\<close>, in the
  \<open>clientName\<close> of a heartbeat; the next master-log entry about it shows \<open>a$b\<close>, or
  the id itself, in place of the name: \<open>String.prototype.replace\<close> expands the dollar
  patterns of its replacement text. When the client names itself with an object that has
  a property \<open>toString\<close>, there is no entry at all: \<open>addMasterLog\<close> throws a TypeError.
\<close>

theorem master_log_name_with_dollars:
  "(case onDataLine (\<lambda>l. Some (heartbeatFrom (JStr ''a$$b''))) (at 1000) 0 ''hb'' authenticatedServer of
      Inl err \<Rightarrow> False
    | Inr s \<Rightarrow>
        clientNames s exampleId = Some (JStr ''a$$b'')
        \<and> (case addMasterLog (at 2000) ''Client timeout: 10.0.0.5:4242'' (Some exampleId) s of
              Inl err \<Rightarrow> False
            | Inr s' \<Rightarrow>
                masterLog s' = [''[00:00:00] Client timeout: a$b'']
                \<and> last (published s') = MasterLogEvent ''[00:00:00] Client timeout: a$b''))
   \<and> (case onDataLine (\<lambda>l. Some (heartbeatFrom (JStr ''$&''))) (at 1000) 0 ''hb'' authenticatedServer of
      Inl err \<Rightarrow> False
    | Inr s \<Rightarrow>
        clientNames s exampleId = Some (JStr ''$&'')
        \<and> (case addMasterLog (at 2000) ''Client timeout: 10.0.0.5:4242'' (Some exampleId) s of
              Inl err \<Rightarrow> False
            | Inr s' \<Rightarrow>
                masterLog s' = [''[00:00:00] Client timeout: 10.0.0.5:4242'']
                \<and> last (published s')
                    = MasterLogEvent ''[00:00:00] Client timeout: 10.0.0.5:4242''))
   \<and> (case onDataLine (\<lambda>l. Some (heartbeatFrom (JObj [(''toString'', JNum ''1'')]))) (at 1000) 0 ''hb''
              authenticatedServer of
      Inl err \<Rightarrow> False
    | Inr s \<Rightarrow>
        clientNames s exampleId = Some (JObj [(''toString'', JNum ''1'')])
        \<and> addMasterLog (at 2000) ''Client timeout: 10.0.0.5:4242'' (Some exampleId) s = Inl TypeError)"
  by (simp add: onDataLine_def processJsonMessage_def heartbeatFrom_def addMasterLog_def
      masterLogText_def displayName_def js_replace_def startsWith_def broadcastToBrowsers_def
      isClientAuthenticated_def authenticatedServer_def awaitingServer_def initialServer_def
      getClientId_def at_def exampleId_def pushLog_def MAX_LOGS_def Let_def)

end
